theory Spec2Isabelle
  imports Complex_Main
begin

section \<open>QU-fitting model definitions of RM-Tools: \<open>m111\<close> and \<open>m6\<close>\<close>

text \<open>
  The two model files \<open>RMtools_1D/models_ns/m111.py\<close> and \<open>RMtools_1D/models_ns/m6.py\<close>
  each define a function \<open>model(pDict, lamSqArr_m2)\<close>, a function \<open>converter(parameters)\<close>
  and a module-level \<open>priors\<close> dictionary.

  Numbers. Python floats are embedded as exact reals and complex numbers: \<open>np.exp\<close>,
  \<open>np.sin\<close> and \<open>np.radians\<close> are the mathematical functions, and rounding is not part
  of this embedding. The one place where IEEE arithmetic leaves the reals, the division by
  an array that may hold zeros in \<open>m6\<close>, is written out: such a division returns a value
  that is not a number instead of raising. Where rounding decides a property, \<open>m111.model\<close>
  is embedded a second time, in binary64 arithmetic with every operation rounded.

  Dictionaries are maps from key strings to reals; a lookup of a missing key raises
  \<open>KeyError\<close>, which is a value of the error type here. Arrays are lists.
\<close>

subsection \<open>Dictionaries and errors\<close>

datatype error = KeyError string

type_synonym pdict = "string \<rightharpoonup> real"

text \<open>\<open>d[k]\<close>\<close>

definition getitem :: "pdict \<Rightarrow> string \<Rightarrow> error + real" where
  "getitem d k = (case d k of None \<Rightarrow> Inl (KeyError k) | Some v \<Rightarrow> Inr v)"

text \<open>Sequencing of two computations, the first of which may raise.\<close>

definition bind_err :: "error + 'a \<Rightarrow> ('a \<Rightarrow> error + 'b) \<Rightarrow> error + 'b" where
  "bind_err r f = (case r of Inl e \<Rightarrow> Inl e | Inr v \<Rightarrow> f v)"

subsection \<open>The numpy operations the models use\<close>

text \<open>\<open>np.ones_like(a)\<close>: an array of ones of the shape of \<open>a\<close>.\<close>

definition ones_like :: "real list \<Rightarrow> real list" where
  "ones_like a = map (\<lambda>_. 1) a"

text \<open>\<open>np.radians(x)\<close>: degrees to radians.\<close>

definition radians :: "real \<Rightarrow> real" where
  "radians x = x * (pi / 180)"

text \<open>\<open>c * a\<close> and \<open>c + a\<close> for a real scalar \<open>c\<close> and a real array \<open>a\<close> (broadcast).\<close>

definition scalar_times :: "real \<Rightarrow> real list \<Rightarrow> real list" where
  "scalar_times c a = map (\<lambda>x. c * x) a"

definition scalar_plus :: "real \<Rightarrow> real list \<Rightarrow> real list" where
  "scalar_plus c a = map (\<lambda>x. c + x) a"

text \<open>\<open>np.exp(2j * a)\<close> for a real array \<open>a\<close>: the result is a complex array.\<close>

definition exp_2j :: "real list \<Rightarrow> complex list" where
  "exp_2j a = map (\<lambda>x. exp (2 * \<i> * complex_of_real x)) a"

text \<open>\<open>p * z\<close> for a real array \<open>p\<close> and a complex array \<open>z\<close> of the same shape.\<close>

definition times_rc :: "real list \<Rightarrow> complex list \<Rightarrow> complex list" where
  "times_rc p z = map2 (\<lambda>x y. complex_of_real x * y) p z"

text \<open>\<open>z * s\<close> for a complex array \<open>z\<close> and a real array \<open>s\<close> of the same shape.\<close>

definition times_cr :: "complex list \<Rightarrow> real list \<Rightarrow> complex list" where
  "times_cr z s = map2 (\<lambda>x y. x * complex_of_real y) z s"

text \<open>\<open>a + b\<close> for two complex arrays of the same shape.\<close>

definition plus_cc :: "complex list \<Rightarrow> complex list \<Rightarrow> complex list" where
  "plus_cc a b = map2 (\<lambda>x y. x + y) a b"

subsection \<open>\<open>m111.py\<close>: three Faraday-thin components\<close>

text \<open>
  The expression both models build for each component, for a real scalar \<open>RM_radm2\<close>:
  \<^verbatim>\<open>pArr * np.exp( 2j * (np.radians(psi0_deg) + RM_radm2 * lamSqArr_m2))\<close>
\<close>

definition phase_quArr :: "real list \<Rightarrow> real \<Rightarrow> real \<Rightarrow> real list \<Rightarrow> complex list" where
  "phase_quArr pArr psi0_deg RM_radm2 lamSqArr_m2 =
     times_rc pArr (exp_2j (scalar_plus (radians psi0_deg) (scalar_times RM_radm2 lamSqArr_m2)))"

text \<open>
  \<open>m111.model(pDict, lamSqArr_m2)\<close>. The dictionary lookups are in the order in which
  Python evaluates them, so that the first missing key is the one reported.
\<close>

definition m111_model :: "pdict \<Rightarrow> real list \<Rightarrow> error + complex list" where
  "m111_model pDict lamSqArr_m2 =
     bind_err (getitem pDict ''fracPol1'') (\<lambda>fracPol1.
     let pArr1 = scalar_times fracPol1 (ones_like lamSqArr_m2) in
     bind_err (getitem pDict ''fracPol2'') (\<lambda>fracPol2.
     let pArr2 = scalar_times fracPol2 (ones_like lamSqArr_m2) in
     bind_err (getitem pDict ''fracPol3'') (\<lambda>fracPol3.
     let pArr3 = scalar_times fracPol3 (ones_like lamSqArr_m2) in
     bind_err (getitem pDict ''psi01_deg'') (\<lambda>psi01_deg.
     bind_err (getitem pDict ''RM1_radm2'') (\<lambda>RM1_radm2.
     let quArr1 = phase_quArr pArr1 psi01_deg RM1_radm2 lamSqArr_m2 in
     bind_err (getitem pDict ''psi02_deg'') (\<lambda>psi02_deg.
     bind_err (getitem pDict ''RM2_radm2'') (\<lambda>RM2_radm2.
     let quArr2 = phase_quArr pArr2 psi02_deg RM2_radm2 lamSqArr_m2 in
     bind_err (getitem pDict ''psi03_deg'') (\<lambda>psi03_deg.
     bind_err (getitem pDict ''RM3_radm2'') (\<lambda>RM3_radm2.
     let quArr3 = phase_quArr pArr3 psi03_deg RM3_radm2 lamSqArr_m2 in
     let quArr = plus_cc (plus_cc quArr1 quArr2) quArr3 in
     Inr quArr)))))))))"

text \<open>The keys \<open>m111.model\<close> reads, in the order of the reads.\<close>

definition m111_model_keys :: "string list" where
  "m111_model_keys =
     [''fracPol1'', ''fracPol2'', ''fracPol3'',
      ''psi01_deg'', ''RM1_radm2'', ''psi02_deg'', ''RM2_radm2'', ''psi03_deg'', ''RM3_radm2'']"

text \<open>
  The formula of the specification for \<open>m111\<close>, written from its words: the sum over the
  three components of \<open>fracPol\<^sub>k \<sqdot> exp(i\<sqdot>2\<sqdot>(psi0\<^sub>k in radians + RM\<^sub>k\<sqdot>\<lambda>\<^sup>2))\<close>.
  A component is the triple \<open>(fracPol, psi0_deg, RM_radm2)\<close>.
\<close>

definition spec_thin_term :: "real \<times> real \<times> real \<Rightarrow> real \<Rightarrow> complex" where
  "spec_thin_term c lamSq =
     (case c of (fracPol, psi0_deg, RM) \<Rightarrow>
        complex_of_real fracPol * exp (\<i> * 2 * complex_of_real (psi0_deg * pi / 180 + RM * lamSq)))"

definition spec_m111 :: "(real \<times> real \<times> real) list \<Rightarrow> real \<Rightarrow> complex" where
  "spec_m111 comps lamSq = (\<Sum>c\<leftarrow>comps. spec_thin_term c lamSq)"

subsection \<open>\<open>m6.py\<close>: two components with differential Faraday rotation\<close>

text \<open>
  \<open>m6.model\<close> divides by the array \<open>deltaRM_radm2 * lamSqArr_m2\<close>. numpy does not raise
  on a zero divisor: it stores the IEEE result and goes on. An array element of \<open>m6\<close>'s
  result is therefore a complex number, or \<open>NaN\<close> (what \<open>0/0\<close> gives, in both
  components), or some other value that is not finite (what \<open>z/0\<close> gives for \<open>z \<noteq> 0\<close>:
  an infinity in one component at least; the embedding does not say which).
\<close>

datatype cval = Val complex | NaN | NonFinite

text \<open>\<open>z / x\<close> for a complex \<open>z\<close> and a real \<open>x\<close>, element by element.\<close>

definition true_divide :: "complex \<Rightarrow> real \<Rightarrow> cval" where
  "true_divide z x =
     (if x \<noteq> 0 then Val (z / complex_of_real x) else if z = 0 then NaN else NonFinite)"

definition divide_cr :: "complex list \<Rightarrow> real list \<Rightarrow> cval list" where
  "divide_cr z d = map2 true_divide z d"

text \<open>
  Addition of two such values: a \<open>NaN\<close> operand gives \<open>NaN\<close>, and any other operand that
  is not finite gives a result that is not finite.
\<close>

fun add_cval :: "cval \<Rightarrow> cval \<Rightarrow> cval" where
  "add_cval (Val a) (Val b) = Val (a + b)"
| "add_cval NaN _ = NaN"
| "add_cval _ NaN = NaN"
| "add_cval _ _ = NonFinite"

definition plus_vv :: "cval list \<Rightarrow> cval list \<Rightarrow> cval list" where
  "plus_vv a b = map2 add_cval a b"

text \<open>\<open>np.sin(a)\<close>\<close>

definition np_sin :: "real list \<Rightarrow> real list" where
  "np_sin a = map sin a"

text \<open>
  \<open>m6.model(pDict, lamSqArr_m2)\<close>. The last statement reads \<open>deltaRM1_radm2\<close> and
  \<open>deltaRM2_radm2\<close> twice more each; \<open>*\<close> and \<open>/\<close> associate to the left, so each
  summand is \<open>(quArr * np.sin(d * lamSqArr_m2)) / (d * lamSqArr_m2)\<close>.
\<close>

definition m6_model :: "pdict \<Rightarrow> real list \<Rightarrow> error + cval list" where
  "m6_model pDict lamSqArr_m2 =
     bind_err (getitem pDict ''fracPol1'') (\<lambda>fracPol1.
     let pArr1 = scalar_times fracPol1 (ones_like lamSqArr_m2) in
     bind_err (getitem pDict ''fracPol2'') (\<lambda>fracPol2.
     let pArr2 = scalar_times fracPol2 (ones_like lamSqArr_m2) in
     bind_err (getitem pDict ''psi01_deg'') (\<lambda>psi01_deg.
     bind_err (getitem pDict ''deltaRM1_radm2'') (\<lambda>deltaRM1_radm2.
     bind_err (getitem pDict ''RM1_radm2'') (\<lambda>RM1_radm2.
     let quArr1 = phase_quArr pArr1 psi01_deg (0.5 * deltaRM1_radm2 + RM1_radm2) lamSqArr_m2 in
     bind_err (getitem pDict ''psi02_deg'') (\<lambda>psi02_deg.
     bind_err (getitem pDict ''deltaRM2_radm2'') (\<lambda>deltaRM2_radm2.
     bind_err (getitem pDict ''RM2_radm2'') (\<lambda>RM2_radm2.
     let quArr2 = phase_quArr pArr2 psi02_deg (0.5 * deltaRM2_radm2 + RM2_radm2) lamSqArr_m2 in
     bind_err (getitem pDict ''deltaRM1_radm2'') (\<lambda>d1_sin.
     bind_err (getitem pDict ''deltaRM1_radm2'') (\<lambda>d1_div.
     bind_err (getitem pDict ''deltaRM2_radm2'') (\<lambda>d2_sin.
     bind_err (getitem pDict ''deltaRM2_radm2'') (\<lambda>d2_div.
     let quArr =
       plus_vv
         (divide_cr (times_cr quArr1 (np_sin (scalar_times d1_sin lamSqArr_m2)))
                    (scalar_times d1_div lamSqArr_m2))
         (divide_cr (times_cr quArr2 (np_sin (scalar_times d2_sin lamSqArr_m2)))
                    (scalar_times d2_div lamSqArr_m2)) in
     Inr quArr))))))))))))"

text \<open>The keys \<open>m6.model\<close> reads, in the order of the first read of each.\<close>

definition m6_model_keys :: "string list" where
  "m6_model_keys =
     [''fracPol1'', ''fracPol2'',
      ''psi01_deg'', ''deltaRM1_radm2'', ''RM1_radm2'',
      ''psi02_deg'', ''deltaRM2_radm2'', ''RM2_radm2'']"

text \<open>
  The formula of the specification for \<open>m6\<close>, written from its words: the sum over the
  two components of \<open>fracPol\<^sub>k \<sqdot> exp(2i\<sqdot>(psi0\<^sub>k in radians + mean rotation measure\<^sub>k \<sqdot> \<lambda>\<^sup>2))\<close>
  multiplied by the sinc envelope \<open>sin(\<Delta>RM\<^sub>k\<sqdot>\<lambda>\<^sup>2)/(\<Delta>RM\<^sub>k\<sqdot>\<lambda>\<^sup>2)\<close>. A component is
  \<open>(fracPol, psi0_deg, RM_radm2, deltaRM_radm2)\<close>: a slab that rotates by \<open>RM_radm2\<close> at
  its near side and by \<open>RM_radm2 + deltaRM_radm2\<close> at its far side, so that its mean
  rotation measure is \<open>RM_radm2 + deltaRM_radm2 / 2\<close>. The quotient of the envelope is the
  division above: it has no finite value at \<open>0/0\<close>.
\<close>

definition spec_mean_RM :: "real \<Rightarrow> real \<Rightarrow> real" where
  "spec_mean_RM RM deltaRM = RM + deltaRM / 2"

definition spec_sinc :: "real \<Rightarrow> cval" where
  "spec_sinc x = true_divide (complex_of_real (sin x)) x"

definition times_cval :: "complex \<Rightarrow> cval \<Rightarrow> cval" where
  "times_cval z v = (case v of Val s \<Rightarrow> Val (z * s) | NaN \<Rightarrow> NaN | NonFinite \<Rightarrow> NonFinite)"

definition spec_slab_term :: "real \<times> real \<times> real \<times> real \<Rightarrow> real \<Rightarrow> cval" where
  "spec_slab_term c lamSq =
     (case c of (fracPol, psi0_deg, RM, deltaRM) \<Rightarrow>
        times_cval
          (complex_of_real fracPol *
             exp (2 * \<i> * complex_of_real (psi0_deg * pi / 180 + spec_mean_RM RM deltaRM * lamSq)))
          (spec_sinc (deltaRM * lamSq)))"

definition spec_m6 :: "(real \<times> real \<times> real \<times> real) list \<Rightarrow> real \<Rightarrow> cval" where
  "spec_m6 comps lamSq = foldr (\<lambda>c acc. add_cval (spec_slab_term c lamSq) acc) comps (Val 0)"

subsection \<open>The conversion functions\<close>

text \<open>
  \<open>converter(parameters)\<close> of \<open>m111.py\<close>, on the contents of the dictionaries:
  \<open>parameters.copy()\<close> has the contents of \<open>parameters\<close>, and each assignment stores one
  key in the copy. The right-hand sides read \<open>parameters\<close>.
\<close>

definition m111_converter :: "pdict \<Rightarrow> error + pdict" where
  "m111_converter parameters =
     (let converted_parameters = parameters in
      bind_err (getitem parameters ''RM1_radm2'') (\<lambda>a1.
      bind_err (getitem parameters ''RM2_radm2'') (\<lambda>b1.
      let converted_parameters = converted_parameters(''delta_RM1_RM2_radm2'' \<mapsto> a1 - b1) in
      bind_err (getitem parameters ''RM2_radm2'') (\<lambda>a2.
      bind_err (getitem parameters ''RM3_radm2'') (\<lambda>b2.
      let converted_parameters = converted_parameters(''delta_RM2_RM3_radm2'' \<mapsto> a2 - b2) in
      bind_err (getitem parameters ''fracPol1'') (\<lambda>p1.
      bind_err (getitem parameters ''fracPol2'') (\<lambda>p2.
      bind_err (getitem parameters ''fracPol3'') (\<lambda>p3.
      let converted_parameters = converted_parameters(''sum_p1_p2_p3'' \<mapsto> p1 + p2 + p3) in
      Inr converted_parameters))))))))"

text \<open>\<open>converter(parameters)\<close> of \<open>m6.py\<close>.\<close>

definition m6_converter :: "pdict \<Rightarrow> error + pdict" where
  "m6_converter parameters =
     (let converted_parameters = parameters in
      bind_err (getitem parameters ''RM1_radm2'') (\<lambda>a1.
      bind_err (getitem parameters ''RM2_radm2'') (\<lambda>b1.
      let converted_parameters = converted_parameters(''delta_RM1_RM2_radm2'' \<mapsto> a1 - b1) in
      bind_err (getitem parameters ''fracPol1'') (\<lambda>p1.
      bind_err (getitem parameters ''fracPol2'') (\<lambda>p2.
      let converted_parameters = converted_parameters(''sum_p1_p2'' \<mapsto> p1 + p2) in
      Inr converted_parameters)))))"

text \<open>The keys each conversion function reads, and the keys it stores.\<close>

definition m111_converter_keys :: "string list" where
  "m111_converter_keys =
     [''RM1_radm2'', ''RM2_radm2'', ''RM3_radm2'', ''fracPol1'', ''fracPol2'', ''fracPol3'']"

definition m111_derived_keys :: "string list" where
  "m111_derived_keys = [''delta_RM1_RM2_radm2'', ''delta_RM2_RM3_radm2'', ''sum_p1_p2_p3'']"

definition m6_converter_keys :: "string list" where
  "m6_converter_keys = [''RM1_radm2'', ''RM2_radm2'', ''fracPol1'', ''fracPol2'']"

definition m6_derived_keys :: "string list" where
  "m6_derived_keys = [''delta_RM1_RM2_radm2'', ''sum_p1_p2'']"

subsection \<open>The conversion functions on a store of dictionary objects\<close>

text \<open>
  A Python dictionary is an object, and \<open>converter\<close> receives a reference to it. To say
  what \<open>converter\<close> does to the caller's dictionary, the dictionaries live in a store, a
  list of their contents, and a reference is an index into it (of a live object, so below
  the length of the store). \<open>d.copy()\<close> allocates a new object with the contents of \<open>d\<close>,
  \<open>d[k]\<close> reads and \<open>d[k] = v\<close> writes the object \<open>d\<close> refers to.
\<close>

type_synonym addr = nat

type_synonym store = "pdict list"

definition dict_copy :: "store \<Rightarrow> addr \<Rightarrow> store \<times> addr" where
  "dict_copy s d = (s @ [s ! d], length s)"

definition dict_getitem :: "store \<Rightarrow> addr \<Rightarrow> string \<Rightarrow> error + real" where
  "dict_getitem s d k = getitem (s ! d) k"

definition dict_setitem :: "store \<Rightarrow> addr \<Rightarrow> string \<Rightarrow> real \<Rightarrow> store" where
  "dict_setitem s d k v = s[d := (s ! d)(k \<mapsto> v)]"

text \<open>
  \<open>converter\<close> of \<open>m111.py\<close>, statement by statement. Each right-hand side is evaluated
  in the store as it is then; when it raises, the store stays as it is and no reference
  is returned.
\<close>

definition m111_converter_ref :: "store \<Rightarrow> addr \<Rightarrow> store \<times> (error + addr)" where
  "m111_converter_ref s parameters =
     (case dict_copy s parameters of (s0, converted_parameters) \<Rightarrow>
      (case bind_err (dict_getitem s0 parameters ''RM1_radm2'') (\<lambda>a.
            bind_err (dict_getitem s0 parameters ''RM2_radm2'') (\<lambda>b. Inr (a - b))) of
         Inl e \<Rightarrow> (s0, Inl e)
       | Inr v1 \<Rightarrow>
      let s1 = dict_setitem s0 converted_parameters ''delta_RM1_RM2_radm2'' v1 in
      (case bind_err (dict_getitem s1 parameters ''RM2_radm2'') (\<lambda>a.
            bind_err (dict_getitem s1 parameters ''RM3_radm2'') (\<lambda>b. Inr (a - b))) of
         Inl e \<Rightarrow> (s1, Inl e)
       | Inr v2 \<Rightarrow>
      let s2 = dict_setitem s1 converted_parameters ''delta_RM2_RM3_radm2'' v2 in
      (case bind_err (dict_getitem s2 parameters ''fracPol1'') (\<lambda>a.
            bind_err (dict_getitem s2 parameters ''fracPol2'') (\<lambda>b.
            bind_err (dict_getitem s2 parameters ''fracPol3'') (\<lambda>c. Inr (a + b + c)))) of
         Inl e \<Rightarrow> (s2, Inl e)
       | Inr v3 \<Rightarrow>
      let s3 = dict_setitem s2 converted_parameters ''sum_p1_p2_p3'' v3 in
      (s3, Inr converted_parameters)))))"

text \<open>\<open>converter\<close> of \<open>m6.py\<close>, statement by statement.\<close>

definition m6_converter_ref :: "store \<Rightarrow> addr \<Rightarrow> store \<times> (error + addr)" where
  "m6_converter_ref s parameters =
     (case dict_copy s parameters of (s0, converted_parameters) \<Rightarrow>
      (case bind_err (dict_getitem s0 parameters ''RM1_radm2'') (\<lambda>a.
            bind_err (dict_getitem s0 parameters ''RM2_radm2'') (\<lambda>b. Inr (a - b))) of
         Inl e \<Rightarrow> (s0, Inl e)
       | Inr v1 \<Rightarrow>
      let s1 = dict_setitem s0 converted_parameters ''delta_RM1_RM2_radm2'' v1 in
      (case bind_err (dict_getitem s1 parameters ''fracPol1'') (\<lambda>a.
            bind_err (dict_getitem s1 parameters ''fracPol2'') (\<lambda>b. Inr (a + b))) of
         Inl e \<Rightarrow> (s1, Inl e)
       | Inr v2 \<Rightarrow>
      let s2 = dict_setitem s1 converted_parameters ''sum_p1_p2'' v2 in
      (s2, Inr converted_parameters))))"

text \<open>The contents of the dictionary a call returns, or the error it raises.\<close>

definition returned :: "store \<times> (error + addr) \<Rightarrow> error + pdict" where
  "returned r = (case r of (s, Inl e) \<Rightarrow> Inl e | (s, Inr d) \<Rightarrow> Inr (s ! d))"

subsection \<open>The prior dictionaries\<close>

text \<open>
  The two kinds of bilby prior the files construct, with the arguments they pass.
  \<open>boundary\<close> is \<open>None\<close> where the file does not pass it. The labels hold backslashes,
  which are spelled out.
\<close>

datatype prior =
    Uniform (minimum: real) (maximum: real) (name: string) (latex_label: string)
      (boundary: "string option")
  | Constraint (minimum: real) (maximum: real) (name: string) (latex_label: string)

definition backslash :: string where
  "backslash = [CHR 0x5C]"

text \<open>
  \<open>priors\<close> of \<open>m111.py\<close>: the entries in the order of the assignments, each under its
  key. Its conversion function is \<open>converter\<close> of the same file.
\<close>

definition m111_priors :: "(string \<times> prior) list" where
  "m111_priors =
     [(''fracPol1'', Uniform 0.0 1.0 ''fracPol1'' ''$p_1$'' None),
      (''fracPol2'', Uniform 0.0 1.0 ''fracPol2'' ''$p_2$'' None),
      (''fracPol3'', Uniform 0.0 1.0 ''fracPol3'' ''$p_3$'' None),
      (''psi01_deg'', Uniform 0 180.0 ''psi01_deg''
         (''$'' @ backslash @ ''psi_{0,1}$ (deg)'') (Some ''periodic'')),
      (''psi02_deg'', Uniform 0 180.0 ''psi02_deg''
         (''$'' @ backslash @ ''psi_{0,2}$ (deg)'') (Some ''periodic'')),
      (''psi03_deg'', Uniform 0 180.0 ''psi03_deg''
         (''$'' @ backslash @ ''psi_{0,3}$ (deg)'') (Some ''periodic'')),
      (''RM1_radm2'', Uniform (-1100.0) 1100.0 ''RM1_radm2''
         (''$'' @ backslash @ ''phi_1$ (rad m$^{-2}$)'') None),
      (''RM2_radm2'', Uniform (-1100.0) 1100.0 ''RM2_radm2''
         (''$'' @ backslash @ ''phi_2$ (rad m$^{-2}$)'') None),
      (''RM3_radm2'', Uniform (-1100.0) 1100.0 ''RM3_radm2''
         (''$'' @ backslash @ ''phi_3$ (rad m$^{-2}$)'') None),
      (''delta_RM1_RM2_radm2'', Constraint 0 2200.0 ''delta_RM1_RM2_radm2''
         (''$'' @ backslash @ ''Delta'' @ backslash @ ''phi_{1,2}$ (rad m$^{-2}$)'')),
      (''delta_RM2_RM3_radm2'', Constraint 0 2200.0 ''delta_RM2_RM3_radm2''
         (''$'' @ backslash @ ''Delta'' @ backslash @ ''phi_{1,2}$ (rad m$^{-2}$)'')),
      (''sum_p1_p2_p3'', Constraint 0.0 1 ''sum_p1_p2_p3'' ''$p_1+p_2+p_3$)'')]"

text \<open>\<open>priors\<close> of \<open>m6.py\<close>; its conversion function is \<open>converter\<close> of \<open>m6.py\<close>.\<close>

definition m6_priors :: "(string \<times> prior) list" where
  "m6_priors =
     [(''fracPol1'', Uniform 0.0 1.0 ''fracPol1'' ''$p_1$'' None),
      (''fracPol2'', Uniform 0.0 1.0 ''fracPol2'' ''$p_2$'' None),
      (''psi01_deg'', Uniform 0 180.0 ''psi01_deg''
         (''$'' @ backslash @ ''psi_{0,1}$ (deg)'') (Some ''periodic'')),
      (''psi02_deg'', Uniform 0 180.0 ''psi02_deg''
         (''$'' @ backslash @ ''psi_{0,2}$ (deg)'') (Some ''periodic'')),
      (''RM1_radm2'', Uniform (-1100.0) 1100.0 ''RM1_radm2''
         (''$'' @ backslash @ ''phi_1$ (rad m$^{-2}$)'') None),
      (''RM2_radm2'', Uniform (-1100.0) 1100.0 ''RM2_radm2''
         (''$'' @ backslash @ ''phi_2$ (rad m$^{-2}$)'') None),
      (''deltaRM1_radm2'', Uniform 0.0 100.0 ''deltaRM1_radm2''
         (''$'' @ backslash @ ''Delta{RM,1}$ (rad m$^{-2}$))'') None),
      (''deltaRM2_radm2'', Uniform 0.0 100.0 ''deltaRM2_radm2''
         (''$'' @ backslash @ ''Delta{RM,2}$ (rad m$^{-2}$)'') None),
      (''delta_RM1_RM2_radm2'', Constraint 0 2200.0 ''delta_RM1_RM2_radm2''
         (''$'' @ backslash @ ''Delta'' @ backslash @ ''phi_{1,2}$ (rad m$^{-2}$)'')),
      (''sum_p1_p2'', Constraint 0.0 1 ''sum_p1_p2'' ''$p_1+p_2$)'')]"

text \<open>
  The keys of a prior dictionary, those of its constraint entries, and those of its other
  entries, which are the parameters a sampler draws.
\<close>

fun is_constraint :: "prior \<Rightarrow> bool" where
  "is_constraint (Constraint _ _ _ _) = True"
| "is_constraint (Uniform _ _ _ _ _) = False"

definition prior_keys :: "(string \<times> prior) list \<Rightarrow> string list" where
  "prior_keys ps = map fst ps"

definition constraint_keys :: "(string \<times> prior) list \<Rightarrow> string list" where
  "constraint_keys ps = map fst (filter (\<lambda>kp. is_constraint (snd kp)) ps)"

definition sampled_keys :: "(string \<times> prior) list \<Rightarrow> string list" where
  "sampled_keys ps = map fst (filter (\<lambda>kp. \<not> is_constraint (snd kp)) ps)"

subsection \<open>Binary64 arithmetic, and \<open>m111.model\<close> in it\<close>

text \<open>
  numpy computes in IEEE binary64. A double is a real number here, and \<open>fl\<close> rounds a
  real to the nearest number with a significand of 53 bits, ties to the even significand.
  The exponent is not bounded: nothing overflows to an infinity and nothing is flushed to
  zero.
\<close>

definition round_even :: "real \<Rightarrow> int" where
  "round_even y =
     (let f = \<lfloor>y\<rfloor> in
      if y - of_int f < 1 / 2 then f
      else if 1 / 2 < y - of_int f then f + 1
      else if even f then f else f + 1)"

definition fl :: "real \<Rightarrow> real" where
  "fl x =
     (if x = 0 then 0
      else (let e = \<lfloor>log 2 \<bar>x\<bar>\<rfloor> - 52 in
            of_int (round_even (x / 2 powi e)) * 2 powi e))"

text \<open>
  \<open>NPY_PI\<close>, the constant of numpy for \<open>\<pi>\<close>: the double \<open>3.141592653589793\<close>, which is
  \<open>884279719003555 / 2\<^sup>4\<^sup>8\<close>. \<open>np.radians(x)\<close> is \<open>x * (NPY_PI / 180.0)\<close>.
\<close>

definition NPY_PI :: real where
  "NPY_PI = 884279719003555 / 281474976710656"

definition radians_fl :: "real \<Rightarrow> real" where
  "radians_fl x = fl (x * fl (NPY_PI / 180))"

text \<open>
  Complex doubles are pairs of doubles. The product and the sum are computed as numpy does,
  \<open>(ar*br - ai*bi, ar*bi + ai*br)\<close> and \<open>(ar + br, ai + bi)\<close>, each operation rounded
  once; a real operand of a complex operation is converted to a complex number with
  imaginary part zero. \<open>np.exp\<close> of a complex number is
  \<open>(exp(re)*cos(im), exp(re)*sin(im))\<close>, with \<open>exp\<close>, \<open>cos\<close> and \<open>sin\<close> rounded to the
  nearest double.
\<close>

definition cmul_fl :: "complex \<Rightarrow> complex \<Rightarrow> complex" where
  "cmul_fl a b =
     Complex (fl (fl (Re a * Re b) - fl (Im a * Im b)))
             (fl (fl (Re a * Im b) + fl (Im a * Re b)))"

definition cadd_fl :: "complex \<Rightarrow> complex \<Rightarrow> complex" where
  "cadd_fl a b = Complex (fl (Re a + Re b)) (fl (Im a + Im b))"

definition exp_fl :: "complex \<Rightarrow> complex" where
  "exp_fl z =
     Complex (fl (fl (exp (Re z)) * fl (cos (Im z))))
             (fl (fl (exp (Re z)) * fl (sin (Im z))))"

text \<open>
  \<^verbatim>\<open>pArr * np.exp( 2j * (np.radians(psi0_deg) + RM_radm2 * lamSqArr_m2))\<close> and
  \<open>m111.model\<close>, operation by operation as above.
\<close>

definition phase_quArr_fl :: "real list \<Rightarrow> real \<Rightarrow> real \<Rightarrow> real list \<Rightarrow> complex list" where
  "phase_quArr_fl pArr psi0_deg RM_radm2 lamSqArr_m2 =
     map2 (\<lambda>p z. cmul_fl (Complex p 0) z) pArr
       (map exp_fl
         (map (\<lambda>x. cmul_fl (Complex 0 2) (Complex x 0))
           (map (\<lambda>x. fl (radians_fl psi0_deg + x))
             (map (\<lambda>l. fl (RM_radm2 * l)) lamSqArr_m2))))"

definition m111_model_fl :: "pdict \<Rightarrow> real list \<Rightarrow> error + complex list" where
  "m111_model_fl pDict lamSqArr_m2 =
     bind_err (getitem pDict ''fracPol1'') (\<lambda>fracPol1.
     let pArr1 = map (\<lambda>one. fl (fracPol1 * one)) (ones_like lamSqArr_m2) in
     bind_err (getitem pDict ''fracPol2'') (\<lambda>fracPol2.
     let pArr2 = map (\<lambda>one. fl (fracPol2 * one)) (ones_like lamSqArr_m2) in
     bind_err (getitem pDict ''fracPol3'') (\<lambda>fracPol3.
     let pArr3 = map (\<lambda>one. fl (fracPol3 * one)) (ones_like lamSqArr_m2) in
     bind_err (getitem pDict ''psi01_deg'') (\<lambda>psi01_deg.
     bind_err (getitem pDict ''RM1_radm2'') (\<lambda>RM1_radm2.
     let quArr1 = phase_quArr_fl pArr1 psi01_deg RM1_radm2 lamSqArr_m2 in
     bind_err (getitem pDict ''psi02_deg'') (\<lambda>psi02_deg.
     bind_err (getitem pDict ''RM2_radm2'') (\<lambda>RM2_radm2.
     let quArr2 = phase_quArr_fl pArr2 psi02_deg RM2_radm2 lamSqArr_m2 in
     bind_err (getitem pDict ''psi03_deg'') (\<lambda>psi03_deg.
     bind_err (getitem pDict ''RM3_radm2'') (\<lambda>RM3_radm2.
     let quArr3 = phase_quArr_fl pArr3 psi03_deg RM3_radm2 lamSqArr_m2 in
     let quArr = map2 cadd_fl (map2 cadd_fl quArr1 quArr2) quArr3 in
     Inr quArr)))))))))"

text \<open>Partial sums of the series of the arc tangent, for bounds of \<open>\<pi>\<close>.\<close>

definition arctan_sum :: "real \<Rightarrow> nat \<Rightarrow> real" where
  "arctan_sum x n = (\<Sum>i<n. (-1) ^ i * (1 / real (i * 2 + 1) * x ^ (i * 2 + 1)))"

subsection \<open>Parameter draws used as examples\<close>

text \<open>
  The draw of the concrete scenario of the specification for \<open>m111\<close> (fractions
  \<open>0.1, 0.2, 0.0\<close>, all angles and rotation measures zero), and a draw for \<open>m6\<close> whose
  second component has no differential rotation.
\<close>

definition m111_draw :: pdict where
  "m111_draw =
     [''fracPol1'' \<mapsto> 0.1, ''fracPol2'' \<mapsto> 0.2, ''fracPol3'' \<mapsto> 0.0,
      ''psi01_deg'' \<mapsto> 0, ''psi02_deg'' \<mapsto> 0, ''psi03_deg'' \<mapsto> 0,
      ''RM1_radm2'' \<mapsto> 0, ''RM2_radm2'' \<mapsto> 0, ''RM3_radm2'' \<mapsto> 0]"

definition m6_draw :: pdict where
  "m6_draw =
     [''fracPol1'' \<mapsto> 0.3, ''fracPol2'' \<mapsto> 0.2,
      ''psi01_deg'' \<mapsto> 0, ''psi02_deg'' \<mapsto> 90,
      ''RM1_radm2'' \<mapsto> 10, ''RM2_radm2'' \<mapsto> -5,
      ''deltaRM1_radm2'' \<mapsto> 2, ''deltaRM2_radm2'' \<mapsto> 0]"

text \<open>
  The same draws with a value already stored under the key of the sum constraint, as a
  dictionary has that went through a conversion before its fractions were changed.
\<close>

definition m111_stale :: pdict where
  "m111_stale = m111_draw(''sum_p1_p2_p3'' \<mapsto> 5)"

definition m6_stale :: pdict where
  "m6_stale = m6_draw(''sum_p1_p2'' \<mapsto> 5)"

text \<open>A draw for \<open>m111\<close> whose three fractions add up to \<open>1.5\<close>.\<close>

definition m111_over :: pdict where
  "m111_over = m111_draw(''fracPol1'' \<mapsto> 0.5, ''fracPol2'' \<mapsto> 0.5, ''fracPol3'' \<mapsto> 0.5)"

text \<open>
  A draw for \<open>m6\<close> whose two components have differential rotation, and a draw for
  \<open>m111\<close> whose values are doubles.
\<close>

definition m6_finite :: pdict where
  "m6_finite = m6_draw(''deltaRM2_radm2'' \<mapsto> 4)"

definition fl_draw :: pdict where
  "fl_draw =
     [''fracPol1'' \<mapsto> 1 / 2, ''fracPol2'' \<mapsto> 1 / 4, ''fracPol3'' \<mapsto> 0,
      ''psi01_deg'' \<mapsto> 0, ''psi02_deg'' \<mapsto> 0, ''psi03_deg'' \<mapsto> 0,
      ''RM1_radm2'' \<mapsto> 0, ''RM2_radm2'' \<mapsto> 0, ''RM3_radm2'' \<mapsto> 0]"

section \<open>Properties\<close>

subsection \<open>Helper facts\<close>

lemma getitem_Some: "d k = Some v \<Longrightarrow> getitem d k = Inr v"
  by (simp add: getitem_def)

lemma getitem_None: "d k = None \<Longrightarrow> getitem d k = Inl (KeyError k)"
  by (simp add: getitem_def)

lemma bind_err_Inr: "bind_err (Inr v) f = f v"
  by (simp add: bind_err_def)

lemma bind_err_Inl: "bind_err (Inl e) f = Inl e"
  by (simp add: bind_err_def)

lemma map2_same: "map2 f (map g xs) (map h xs) = map (\<lambda>x. f (g x) (h x)) xs"
  by (induction xs) simp_all

lemma phase_quArr_map:
  "phase_quArr (scalar_times p (ones_like lam)) psi rm lam =
     map (\<lambda>l. complex_of_real p * exp (2 * \<i> * complex_of_real (radians psi + rm * l))) lam"
  by (induction lam)
     (simp_all add: phase_quArr_def times_rc_def exp_2j_def scalar_plus_def scalar_times_def
        ones_like_def)

lemma plus_cc_map: "plus_cc (map f xs) (map g xs) = map (\<lambda>x. f x + g x) xs"
  by (simp add: plus_cc_def map2_same)

lemma sinc_quArr_map:
  "divide_cr (times_cr (map f lam) (np_sin (scalar_times d lam))) (scalar_times d' lam) =
     map (\<lambda>l. true_divide (f l * complex_of_real (sin (d * l))) (d' * l)) lam"
  by (induction lam) (simp_all add: divide_cr_def times_cr_def np_sin_def scalar_times_def)

lemma plus_vv_map: "plus_vv (map f xs) (map g xs) = map (\<lambda>x. add_cval (f x) (g x)) xs"
  by (simp add: plus_vv_def map2_same)

lemma add_cval_Val_0: "add_cval v (Val 0) = v"
  by (cases v) simp_all

lemma add_cval_NaN: "a = NaN \<or> b = NaN \<Longrightarrow> add_cval a b = NaN"
  by (cases a; cases b) auto

lemma true_divide_NaN_iff: "true_divide z x = NaN \<longleftrightarrow> z = 0 \<and> x = 0"
  by (simp add: true_divide_def)

lemma true_divide_zero: "x = 0 \<Longrightarrow> true_divide (z * complex_of_real (sin x)) x = NaN"
  by (simp add: true_divide_def)

lemma times_cval_sinc:
  "times_cval z (spec_sinc x) = true_divide (z * complex_of_real (sin x)) x"
  by (simp add: times_cval_def spec_sinc_def true_divide_def)

subsection \<open>What the two model functions compute\<close>

text \<open>With every key present, \<open>m111.model\<close> returns the array of the three-term sums.\<close>

lemma m111_model_value:
  assumes "pDict ''fracPol1'' = Some p1" "pDict ''fracPol2'' = Some p2"
    "pDict ''fracPol3'' = Some p3"
    "pDict ''psi01_deg'' = Some a1" "pDict ''psi02_deg'' = Some a2"
    "pDict ''psi03_deg'' = Some a3"
    "pDict ''RM1_radm2'' = Some r1" "pDict ''RM2_radm2'' = Some r2"
    "pDict ''RM3_radm2'' = Some r3"
  shows "m111_model pDict lam =
     Inr (map (\<lambda>l.
        complex_of_real p1 * exp (2 * \<i> * complex_of_real (radians a1 + r1 * l))
      + complex_of_real p2 * exp (2 * \<i> * complex_of_real (radians a2 + r2 * l))
      + complex_of_real p3 * exp (2 * \<i> * complex_of_real (radians a3 + r3 * l))) lam)"
  unfolding m111_model_def
  by (simp add: assms getitem_Some bind_err_Inr phase_quArr_map plus_cc_map)

text \<open>With a key missing, it raises \<open>KeyError\<close> for the first missing key it reads.\<close>

lemma m111_model_missing:
  assumes "find (\<lambda>k. pDict k = None) m111_model_keys = Some k"
  shows "m111_model pDict lam = Inl (KeyError k)"
  using assms unfolding m111_model_def m111_model_keys_def
  by (auto simp: getitem_def bind_err_def split: option.splits if_splits)

lemma m6_model_value:
  assumes "pDict ''fracPol1'' = Some p1" "pDict ''fracPol2'' = Some p2"
    "pDict ''psi01_deg'' = Some a1" "pDict ''psi02_deg'' = Some a2"
    "pDict ''RM1_radm2'' = Some r1" "pDict ''RM2_radm2'' = Some r2"
    "pDict ''deltaRM1_radm2'' = Some d1" "pDict ''deltaRM2_radm2'' = Some d2"
  shows "m6_model pDict lam =
     Inr (map (\<lambda>l. add_cval
        (true_divide (complex_of_real p1 *
            exp (2 * \<i> * complex_of_real (radians a1 + (0.5 * d1 + r1) * l)) *
            complex_of_real (sin (d1 * l))) (d1 * l))
        (true_divide (complex_of_real p2 *
            exp (2 * \<i> * complex_of_real (radians a2 + (0.5 * d2 + r2) * l)) *
            complex_of_real (sin (d2 * l))) (d2 * l))) lam)"
  unfolding m6_model_def
  by (simp add: assms getitem_Some bind_err_Inr phase_quArr_map sinc_quArr_map plus_vv_map)

lemma m6_model_missing:
  assumes "find (\<lambda>k. pDict k = None) m6_model_keys = Some k"
  shows "m6_model pDict lam = Inl (KeyError k)"
  using assms unfolding m6_model_def m6_model_keys_def
  by (auto simp: getitem_def bind_err_def split: option.splits if_splits)

text \<open>
  Claim C2. For every parameter dictionary that holds the nine keys of \<open>m111\<close> and every
  array of wavelength-squared values, \<open>m111.model\<close> returns, at each sample, the sum over
  the three components of \<open>fracPol\<^sub>k \<sqdot> exp(i\<sqdot>2\<sqdot>(psi0\<^sub>k in radians + RM\<^sub>k\<sqdot>\<lambda>\<^sup>2))\<close>: no envelope
  multiplies a term. (Exact real and complex arithmetic.)
\<close>

theorem m111_model_formula:
  assumes "pDict ''fracPol1'' = Some p1" "pDict ''fracPol2'' = Some p2"
    "pDict ''fracPol3'' = Some p3"
    "pDict ''psi01_deg'' = Some a1" "pDict ''psi02_deg'' = Some a2"
    "pDict ''psi03_deg'' = Some a3"
    "pDict ''RM1_radm2'' = Some r1" "pDict ''RM2_radm2'' = Some r2"
    "pDict ''RM3_radm2'' = Some r3"
  shows "m111_model pDict lam =
           Inr (map (spec_m111 [(p1, a1, r1), (p2, a2, r2), (p3, a3, r3)]) lam)"
  by (simp add: m111_model_value [OF assms] spec_m111_def spec_thin_term_def radians_def
      mult.commute mult.left_commute add.assoc)

theorem m111_model_formula_witness:
  "m111_draw ''fracPol1'' = Some 0.1 \<and> m111_draw ''fracPol2'' = Some 0.2 \<and>
   m111_draw ''fracPol3'' = Some 0 \<and>
   m111_draw ''psi01_deg'' = Some 0 \<and> m111_draw ''psi02_deg'' = Some 0 \<and>
   m111_draw ''psi03_deg'' = Some 0 \<and>
   m111_draw ''RM1_radm2'' = Some 0 \<and> m111_draw ''RM2_radm2'' = Some 0 \<and>
   m111_draw ''RM3_radm2'' = Some 0 \<and>
   m111_model m111_draw [0, 1] =
     Inr (map (spec_m111 [(0.1, 0, 0), (0.2, 0, 0), (0, 0, 0)]) [0, 1])"
  using m111_model_formula [of m111_draw "0.1" "0.2" 0 0 0 0 0 0 0 "[0, 1]"]
  by (simp add: m111_draw_def)

text \<open>
  Claim C1. For every parameter dictionary that holds the eight keys of \<open>m6\<close> and every
  array of wavelength-squared values, \<open>m6.model\<close> returns, at each sample, the sum over
  the two components of \<open>fracPol\<^sub>k \<sqdot> exp(2i\<sqdot>(psi0\<^sub>k in radians + mean RM\<^sub>k \<sqdot> \<lambda>\<^sup>2))\<close> multiplied
  by the envelope \<open>sin(\<Delta>RM\<^sub>k\<sqdot>\<lambda>\<^sup>2)/(\<Delta>RM\<^sub>k\<sqdot>\<lambda>\<^sup>2)\<close>, the mean rotation measure of a component
  being \<open>RM\<^sub>k + \<Delta>RM\<^sub>k/2\<close>. Where \<open>\<Delta>RM\<^sub>k\<sqdot>\<lambda>\<^sup>2 = 0\<close> both sides are the \<open>NaN\<close> of \<open>0/0\<close>.
  (Exact real and complex arithmetic.)
\<close>

theorem m6_model_formula:
  assumes "pDict ''fracPol1'' = Some p1" "pDict ''fracPol2'' = Some p2"
    "pDict ''psi01_deg'' = Some a1" "pDict ''psi02_deg'' = Some a2"
    "pDict ''RM1_radm2'' = Some r1" "pDict ''RM2_radm2'' = Some r2"
    "pDict ''deltaRM1_radm2'' = Some d1" "pDict ''deltaRM2_radm2'' = Some d2"
  shows "m6_model pDict lam = Inr (map (spec_m6 [(p1, a1, r1, d1), (p2, a2, r2, d2)]) lam)"
  by (simp add: m6_model_value [OF assms] spec_m6_def spec_slab_term_def times_cval_sinc
      add_cval_Val_0 radians_def spec_mean_RM_def add.commute)

theorem m6_model_formula_witness:
  "m6_draw ''fracPol1'' = Some 0.3 \<and> m6_draw ''fracPol2'' = Some 0.2 \<and>
   m6_draw ''psi01_deg'' = Some 0 \<and> m6_draw ''psi02_deg'' = Some 90 \<and>
   m6_draw ''RM1_radm2'' = Some 10 \<and> m6_draw ''RM2_radm2'' = Some (-5) \<and>
   m6_draw ''deltaRM1_radm2'' = Some 2 \<and> m6_draw ''deltaRM2_radm2'' = Some 0 \<and>
   m6_model m6_draw [1, 2] =
     Inr (map (spec_m6 [(0.3, 0, 10, 2), (0.2, 90, -5, 0)]) [1, 2])"
  using m6_model_formula [of m6_draw "0.3" "0.2" 0 90 10 "-5" 2 0 "[1, 2]"]
  by (simp add: m6_draw_def)

text \<open>
  Claim C3. For every parameter dictionary that holds the eight keys of \<open>m6\<close> and every
  array with a sample where \<open>\<Delta>RM\<^sub>k\<sqdot>\<lambda>\<^sup>2 = 0\<close> for a component \<open>k\<close>, \<open>m6.model\<close> raises nothing:
  it returns an array of the length of its input, whose element at that sample is \<open>NaN\<close>.
  \<open>NaN\<close> comes from the division of zero by zero only: a non-zero numerator over zero
  would give \<open>NonFinite\<close>.
\<close>

theorem m6_model_zero_NaN:
  assumes "pDict ''fracPol1'' = Some p1" "pDict ''fracPol2'' = Some p2"
    "pDict ''psi01_deg'' = Some a1" "pDict ''psi02_deg'' = Some a2"
    "pDict ''RM1_radm2'' = Some r1" "pDict ''RM2_radm2'' = Some r2"
    "pDict ''deltaRM1_radm2'' = Some d1" "pDict ''deltaRM2_radm2'' = Some d2"
    and "i < length lam" and "d1 * lam ! i = 0 \<or> d2 * lam ! i = 0"
  shows "\<exists>quArr. m6_model pDict lam = Inr quArr \<and> length quArr = length lam \<and> quArr ! i = NaN"
proof -
  have n: "add_cval (true_divide (z1 * complex_of_real (sin x1)) x1)
             (true_divide (z2 * complex_of_real (sin x2)) x2) = NaN"
    if "x1 = 0 \<or> x2 = 0" for z1 z2 :: complex and x1 x2 :: real
    using that by (metis add_cval_NaN true_divide_zero)
  show ?thesis
    using assms(9) by (simp add: m6_model_value [OF assms(1-8)] n [OF assms(10)])
qed

theorem m6_model_zero_NaN_witness:
  "m6_draw ''fracPol1'' = Some 0.3 \<and> m6_draw ''fracPol2'' = Some 0.2 \<and>
   m6_draw ''psi01_deg'' = Some 0 \<and> m6_draw ''psi02_deg'' = Some 90 \<and>
   m6_draw ''RM1_radm2'' = Some 10 \<and> m6_draw ''RM2_radm2'' = Some (-5) \<and>
   m6_draw ''deltaRM1_radm2'' = Some 2 \<and> m6_draw ''deltaRM2_radm2'' = Some 0 \<and>
   (1::nat) < length [1, 2 :: real] \<and> (2 * [1, 2] ! 1 = (0::real) \<or> 0 * [1, 2] ! 1 = (0::real)) \<and>
   (\<exists>quArr. m6_model m6_draw [1, 2] = Inr quArr \<and> length quArr = length [1, 2 :: real] \<and>
      quArr ! 1 = NaN)"
  using m6_model_zero_NaN [of m6_draw "0.3" "0.2" 0 90 10 "-5" 2 0 1 "[1, 2]"]
  by (simp add: m6_draw_def)

subsection \<open>Keys present, keys missing\<close>

lemma find_missing_None:
  "find (\<lambda>k. pDict k = None) ks = None \<longleftrightarrow> set ks \<subseteq> dom pDict"
  by (auto simp: find_None_iff dom_def)

lemma m111_keys_values:
  assumes "set m111_model_keys \<subseteq> dom pDict"
  obtains p1 p2 p3 a1 a2 a3 r1 r2 r3 where
    "pDict ''fracPol1'' = Some p1" "pDict ''fracPol2'' = Some p2" "pDict ''fracPol3'' = Some p3"
    "pDict ''psi01_deg'' = Some a1" "pDict ''psi02_deg'' = Some a2" "pDict ''psi03_deg'' = Some a3"
    "pDict ''RM1_radm2'' = Some r1" "pDict ''RM2_radm2'' = Some r2" "pDict ''RM3_radm2'' = Some r3"
  using assms unfolding m111_model_keys_def by (auto simp: dom_def)

lemma m6_keys_values:
  assumes "set m6_model_keys \<subseteq> dom pDict"
  obtains p1 p2 a1 a2 r1 r2 d1 d2 where
    "pDict ''fracPol1'' = Some p1" "pDict ''fracPol2'' = Some p2"
    "pDict ''psi01_deg'' = Some a1" "pDict ''psi02_deg'' = Some a2"
    "pDict ''RM1_radm2'' = Some r1" "pDict ''RM2_radm2'' = Some r2"
    "pDict ''deltaRM1_radm2'' = Some d1" "pDict ''deltaRM2_radm2'' = Some d2"
  using assms unfolding m6_model_keys_def by (auto simp: dom_def)

lemma missing_upd:
  assumes "pDict k = Some v"
  shows "find (\<lambda>k'. (pDict(k \<mapsto> w)) k' = None) ks = find (\<lambda>k'. pDict k' = None) ks"
proof -
  have "(\<lambda>k'. (pDict(k \<mapsto> w)) k' = None) = (\<lambda>k'. pDict k' = None)"
    using assms by (auto simp: fun_eq_iff)
  then show ?thesis by simp
qed

text \<open>
  Each model function returns an array exactly when the dictionary holds every key of its list: the lists are the keys the function reads.
\<close>

lemma m111_model_succeeds_iff:
  "(\<exists>quArr. m111_model pDict lam = Inr quArr) \<longleftrightarrow> set m111_model_keys \<subseteq> dom pDict"
proof (cases "find (\<lambda>k. pDict k = None) m111_model_keys")
  case None
  then have k: "set m111_model_keys \<subseteq> dom pDict" by (simp add: find_missing_None)
  then obtain p1 p2 p3 a1 a2 a3 r1 r2 r3 where v:
    "pDict ''fracPol1'' = Some p1" "pDict ''fracPol2'' = Some p2" "pDict ''fracPol3'' = Some p3"
    "pDict ''psi01_deg'' = Some a1" "pDict ''psi02_deg'' = Some a2" "pDict ''psi03_deg'' = Some a3"
    "pDict ''RM1_radm2'' = Some r1" "pDict ''RM2_radm2'' = Some r2" "pDict ''RM3_radm2'' = Some r3"
    by (rule m111_keys_values)
  show ?thesis using k by (simp add: m111_model_value [OF v])
next
  case (Some k)
  then have "\<not> set m111_model_keys \<subseteq> dom pDict"
    using find_missing_None [of pDict m111_model_keys] by simp
  then show ?thesis by (simp add: m111_model_missing [OF Some])
qed

lemma m6_model_succeeds_iff:
  "(\<exists>quArr. m6_model pDict lam = Inr quArr) \<longleftrightarrow> set m6_model_keys \<subseteq> dom pDict"
proof (cases "find (\<lambda>k. pDict k = None) m6_model_keys")
  case None
  then have k: "set m6_model_keys \<subseteq> dom pDict" by (simp add: find_missing_None)
  then obtain p1 p2 a1 a2 r1 r2 d1 d2 where v:
    "pDict ''fracPol1'' = Some p1" "pDict ''fracPol2'' = Some p2"
    "pDict ''psi01_deg'' = Some a1" "pDict ''psi02_deg'' = Some a2"
    "pDict ''RM1_radm2'' = Some r1" "pDict ''RM2_radm2'' = Some r2"
    "pDict ''deltaRM1_radm2'' = Some d1" "pDict ''deltaRM2_radm2'' = Some d2"
    by (rule m6_keys_values)
  show ?thesis using k by (simp add: m6_model_value [OF v])
next
  case (Some k)
  then have "\<not> set m6_model_keys \<subseteq> dom pDict"
    using find_missing_None [of pDict m6_model_keys] by simp
  then show ?thesis by (simp add: m6_model_missing [OF Some])
qed

text \<open>
  The concrete scenario of the specification: one sample at \<open>\<lambda>\<^sup>2 = 0\<close> gives \<open>0.3 + 0i\<close>.
\<close>

lemma m111_scenario: "m111_model m111_draw [0] = Inr [0.3]"
  using m111_model_value [of m111_draw "0.1" "0.2" 0 0 0 0 0 0 0 "[0]"]
  by (simp add: m111_draw_def radians_def)

text \<open>
  Claim C4. For every parameter dictionary that holds all the keys of a model and every
  array of wavelength-squared values of length \<open>N\<close> (empty or not), \<open>m111.model\<close> and
  \<open>m6.model\<close> return an array of length \<open>N\<close>.
\<close>

theorem model_length:
  assumes "set m111_model_keys \<subseteq> dom pDict111" and "set m6_model_keys \<subseteq> dom pDict6"
  shows "(\<exists>quArr. m111_model pDict111 lam = Inr quArr \<and> length quArr = length lam) \<and>
         (\<exists>quArr. m6_model pDict6 lam = Inr quArr \<and> length quArr = length lam)"
proof
  from assms(1) show "\<exists>quArr. m111_model pDict111 lam = Inr quArr \<and> length quArr = length lam"
    by (elim m111_keys_values) (simp add: m111_model_value)
  from assms(2) show "\<exists>quArr. m6_model pDict6 lam = Inr quArr \<and> length quArr = length lam"
    by (elim m6_keys_values) (simp add: m6_model_value)
qed

theorem model_length_witness:
  "set m111_model_keys \<subseteq> dom m111_draw \<and> set m6_model_keys \<subseteq> dom m6_draw \<and>
   (\<exists>quArr. m111_model m111_draw [0, 1, 2] = Inr quArr \<and> length quArr = length [0, 1, 2 :: real]) \<and>
   (\<exists>quArr. m6_model m6_draw [0, 1, 2] = Inr quArr \<and> length quArr = length [0, 1, 2 :: real])"
  using model_length [of m111_draw m6_draw "[0, 1, 2]"]
  by (simp add: m111_draw_def m6_draw_def m111_model_keys_def m6_model_keys_def)

text \<open>
  Claim C7. With \<open>fracPol2 = 0\<close> and \<open>fracPol3 = 0\<close>, \<open>m111.model\<close> returns at every
  sample the term of component 1 alone, \<open>fracPol1 \<sqdot> exp(2i\<sqdot>(psi01_deg in radians + RM1_radm2\<sqdot>\<lambda>\<^sup>2))\<close>,
  whatever the angles and rotation measures of components 2 and 3 are. (Exact real and
  complex arithmetic.)
\<close>

theorem m111_single_component:
  assumes "pDict ''fracPol1'' = Some p1" "pDict ''fracPol2'' = Some 0"
    "pDict ''fracPol3'' = Some 0"
    "pDict ''psi01_deg'' = Some a1" "pDict ''psi02_deg'' = Some a2"
    "pDict ''psi03_deg'' = Some a3"
    "pDict ''RM1_radm2'' = Some r1" "pDict ''RM2_radm2'' = Some r2"
    "pDict ''RM3_radm2'' = Some r3"
  shows "m111_model pDict lam = Inr (map (spec_thin_term (p1, a1, r1)) lam)"
  by (simp add: m111_model_value [OF assms] spec_thin_term_def radians_def
      mult.commute mult.left_commute)

theorem m111_single_component_witness:
  "(m111_draw(''fracPol2'' \<mapsto> 0, ''psi02_deg'' \<mapsto> 45, ''RM3_radm2'' \<mapsto> 7)) ''fracPol2'' = Some 0 \<and>
   (m111_draw(''fracPol2'' \<mapsto> 0, ''psi02_deg'' \<mapsto> 45, ''RM3_radm2'' \<mapsto> 7)) ''fracPol3'' = Some 0 \<and>
   m111_model (m111_draw(''fracPol2'' \<mapsto> 0, ''psi02_deg'' \<mapsto> 45, ''RM3_radm2'' \<mapsto> 7)) [0, 1] =
     Inr (map (spec_thin_term (0.1, 0, 0)) [0, 1])"
  using m111_single_component
    [of "m111_draw(''fracPol2'' \<mapsto> 0, ''psi02_deg'' \<mapsto> 45, ''RM3_radm2'' \<mapsto> 7)"
        "0.1" 0 45 0 0 0 7 "[0, 1]"]
  by (simp add: m111_draw_def)

subsection \<open>Binary64 arithmetic\<close>

text \<open>Bounds of \<open>\<pi>\<close> from Machin's formula: \<open>NPY_PI < \<pi> < NPY_PI + 2\<^sup>-\<^sup>5\<^sup>2\<close>.\<close>

lemma arctan_sum_bounds:
  assumes "0 \<le> x" and "x \<le> 1"
  shows "arctan_sum x (2 * n) \<le> arctan x" and "arctan x \<le> arctan_sum x (2 * n + 1)"
proof -
  let ?a = "\<lambda>i. 1 / real (i * 2 + 1) * x ^ (i * 2 + 1)"
  have ax: "\<bar>x\<bar> \<le> 1" using assms by simp
  have z: "?a \<longlonglongrightarrow> 0" by (rule zeroseq_arctan_series [OF ax])
  have p: "0 \<le> ?a i" for i using assms by simp
  have m: "?a (Suc i) \<le> ?a i" for i
  proof -
    have "x ^ (Suc i * 2 + 1) \<le> x ^ (i * 2 + 1)"
      using assms by (intro power_decreasing) simp_all
    moreover have "1 / real (Suc i * 2 + 1) \<le> 1 / real (i * 2 + 1)"
      by (simp add: field_simps)
    ultimately show ?thesis
      using assms by (intro mult_mono) simp_all
  qed
  have s: "arctan x = (\<Sum>i. (-1) ^ i * ?a i)" by (rule arctan_series [OF ax])
  show "arctan_sum x (2 * n) \<le> arctan x"
    unfolding arctan_sum_def s by (rule summable_Leibniz'(2) [OF z p m])
  show "arctan x \<le> arctan_sum x (2 * n + 1)"
    unfolding arctan_sum_def s by (rule summable_Leibniz'(4) [OF z p m])
qed

lemma arctan_sum_Suc:
  "arctan_sum x (Suc n) = arctan_sum x n + (-1) ^ n * (1 / real (n * 2 + 1) * x ^ (n * 2 + 1))"
  by (simp add: arctan_sum_def)

lemma arctan_sum_0: "arctan_sum x 0 = 0"
  by (simp add: arctan_sum_def)

lemma arctan_sum_5_12: "arctan_sum (1/5) 12 = 
  (1/5) - (1/5)^3/3 + (1/5)^5/5 - (1/5)^7/7 + (1/5)^9/9 - (1/5)^11/11 + (1/5)^13/13 - (1/5)^15/15
  + (1/5)^17/17 - (1/5)^19/19 + (1/5)^21/21 - (1/5)^23/23"
  by (simp add: eval_nat_numeral arctan_sum_Suc arctan_sum_0)

lemma arctan_sum_239_3: "arctan_sum (1/239) 3 = (1/239) - (1/239)^3/3 + (1/239)^5/5"
  by (simp add: eval_nat_numeral arctan_sum_Suc arctan_sum_0)

lemma pi_lower: "884279719003555 / 281474976710656 < pi"
proof -
  have a: "arctan_sum (1/5) 12 \<le> arctan (1/5)"
    using arctan_sum_bounds(1) [of "1/5" 6] by simp
  have b: "arctan (1/239) \<le> arctan_sum (1/239) 3"
    using arctan_sum_bounds(2) [of "1/239" 1] by simp
  have "pi = 16 * arctan (1/5) - 4 * arctan (1/239)"
    using machin by simp
  then have "16 * arctan_sum (1/5) 12 - 4 * arctan_sum (1/239) 3 \<le> pi"
    using a b by simp
  moreover have "884279719003555 / 281474976710656 <
      16 * arctan_sum (1/5) 12 - (4::real) * arctan_sum (1/239) 3"
    unfolding arctan_sum_5_12 arctan_sum_239_3 by (simp add: power_divide)
  ultimately show ?thesis by simp
qed

lemma arctan_sum_5_11: "arctan_sum (1/5) 11 =
  (1/5) - (1/5)^3/3 + (1/5)^5/5 - (1/5)^7/7 + (1/5)^9/9 - (1/5)^11/11 + (1/5)^13/13 - (1/5)^15/15
  + (1/5)^17/17 - (1/5)^19/19 + (1/5)^21/21"
  by (simp add: eval_nat_numeral arctan_sum_Suc arctan_sum_0)

lemma arctan_sum_239_4: "arctan_sum (1/239) 4 = (1/239) - (1/239)^3/3 + (1/239)^5/5 - (1/239)^7/7"
  by (simp add: eval_nat_numeral arctan_sum_Suc arctan_sum_0)

lemma pi_upper: "pi < 884279719003555 / 281474976710656 + 1 / 2 ^ 52"
proof -
  have a: "arctan (1/5) \<le> arctan_sum (1/5) 11"
    using arctan_sum_bounds(2) [of "1/5" 5] by simp
  have b: "arctan_sum (1/239) 4 \<le> arctan (1/239)"
    using arctan_sum_bounds(1) [of "1/239" 2] by simp
  have "pi = 16 * arctan (1/5) - 4 * arctan (1/239)"
    using machin by simp
  then have "pi \<le> 16 * arctan_sum (1/5) 11 - 4 * arctan_sum (1/239) 4"
    using a b by simp
  moreover have "16 * arctan_sum (1/5) 11 - (4::real) * arctan_sum (1/239) 4 <
      884279719003555 / 281474976710656 + 1 / 2 ^ 52"
    unfolding arctan_sum_5_11 arctan_sum_239_4 by (simp add: power_divide)
  ultimately show ?thesis by simp
qed

text \<open>Rounding: zero only at zero, and the value in a given binade.\<close>

lemma fl_0: "fl 0 = 0"
  by (simp add: fl_def)

lemma floor_log2:
  assumes "2 powi k \<le> x" and "x < 2 powi (k + 1)"
  shows "\<lfloor>log 2 x\<rfloor> = k"
proof -
  have x: "0 < x"
    using assms(1) zero_less_power_int [of "2::real" k] by linarith
  have "of_int k \<le> log 2 x"
    using assms(1) x by (simp add: le_log_iff powr_real_of_int')
  moreover have "log 2 x < of_int (k + 1)"
    using assms(2) x by (simp add: log_less_iff powr_real_of_int' del: of_int_add)
  ultimately show ?thesis by linarith
qed

lemma fl_eval:
  assumes "2 powi k \<le> \<bar>x\<bar>" and "\<bar>x\<bar> < 2 powi (k + 1)"
  shows "fl x = of_int (round_even (x / 2 powi (k - 52))) * 2 powi (k - 52)"
proof -
  have "0 < \<bar>x\<bar>"
    using assms(1) zero_less_power_int [of "2::real" k] by linarith
  then have "x \<noteq> 0" by simp
  then show ?thesis
    by (simp add: fl_def Let_def floor_log2 [OF assms])
qed

lemma round_even_of_int: "round_even (of_int m) = m"
  by (simp add: round_even_def)

lemma round_even_0_iff: "round_even y = 0 \<Longrightarrow> \<bar>y\<bar> \<le> 1 / 2"
  unfolding round_even_def Let_def
  by (auto split: if_splits) linarith+

lemma round_even_eq:
  assumes "of_int m \<le> y" and "y < of_int m + 1 / 2"
  shows "round_even y = m"
proof -
  have "\<lfloor>y\<rfloor> = m" using assms by linarith
  then show ?thesis using assms by (simp add: round_even_def)
qed

lemma fl_eq_0_iff: "fl x = 0 \<longleftrightarrow> x = 0"
proof
  assume z: "fl x = 0"
  show "x = 0"
  proof (rule ccontr)
    assume nz: "x \<noteq> 0"
    define k where "k = \<lfloor>log 2 \<bar>x\<bar>\<rfloor>"
    have p: "0 < (2::real) powi (k - 52)" by (simp add: zero_less_power_int)
    from z nz have "round_even (x / 2 powi (k - 52)) = 0"
      using p by (simp add: fl_def Let_def k_def)
    then have "\<bar>x / 2 powi (k - 52)\<bar> \<le> 1 / 2"
      by (rule round_even_0_iff)
    then have a: "\<bar>x\<bar> \<le> 2 powi (k - 52) / 2"
      using p by (simp add: field_simps)
    have "of_int k \<le> log 2 \<bar>x\<bar>" by (simp add: k_def)
    then have "2 powr of_int k \<le> \<bar>x\<bar>"
      using nz by (simp add: le_log_iff)
    then have b: "2 powi k \<le> \<bar>x\<bar>"
      by (simp add: powr_real_of_int')
    have "(2::real) powi (k - 52) = 2 powi k / 2 ^ 52"
      by (simp add: power_int_diff)
    moreover have "0 < (2::real) powi k" by (simp add: zero_less_power_int)
    ultimately show False
      using a b by (simp add: field_simps)
  qed
qed (simp add: fl_0)

text \<open>
  \<open>NPY_PI\<close> is \<open>\<pi>\<close> rounded, and \<open>np.radians(180.0)\<close> is \<open>NPY_PI\<close> again: a double
  below \<open>\<pi>\<close>, at which the sine of the doubled angle is not zero.
\<close>

lemma fl_pi: "fl pi = NPY_PI"
proof -
  have b: "(2::real) powi 1 \<le> \<bar>pi\<bar>" "\<bar>pi\<bar> < 2 powi (1 + 1)"
    using pi_ge_two pi_less_4 by simp_all
  have "round_even (pi / 2 powi (1 - 52)) = 7074237752028440"
    using pi_lower pi_upper by (intro round_even_eq) (simp_all add: field_simps)
  then show ?thesis
    unfolding fl_eval [OF b] by (simp add: NPY_PI_def)
qed

lemma fl_NPY_PI: "fl NPY_PI = NPY_PI"
  using fl_eval [of 1 NPY_PI]
  by (simp add: NPY_PI_def round_even_def)

lemma fl_deg2rad: "fl (NPY_PI / 180) = 5030569068109113 / 288230376151711744"
  using fl_eval [of "-6" "NPY_PI / 180"]
  by (simp add: NPY_PI_def round_even_def)

lemma fl_180_deg2rad: "fl (180 * (5030569068109113 / 288230376151711744)) = NPY_PI"
  using fl_eval [of 1 "180 * (5030569068109113 / 288230376151711744)"]
  by (simp add: NPY_PI_def round_even_def)

lemma fl_2_NPY_PI: "fl (2 * NPY_PI) = 2 * NPY_PI"
  using fl_eval [of 2 "2 * NPY_PI"]
  by (simp add: NPY_PI_def round_even_def)

lemma fl_1: "fl 1 = 1"
  using fl_eval [of 0 1]
  by (simp add: round_even_def)

lemma fl_half: "fl (1 / 2) = 1 / 2"
  using fl_eval [of "-1" "1 / 2"] by (simp add: round_even_def)

lemma fl_quarter: "fl (1 / 4) = 1 / 4"
  using fl_eval [of "-2" "1 / 4"] by (simp add: round_even_def)

lemma fl_3_quarters: "fl (3 / 4) = 3 / 4"
  using fl_eval [of "-1" "3 / 4"] by (simp add: round_even_def)

lemma radians_fl_180: "radians_fl 180 = NPY_PI"
  unfolding radians_fl_def fl_deg2rad by (rule fl_180_deg2rad)

lemma radians_fl_0: "radians_fl 0 = 0"
  by (simp add: radians_fl_def fl_0)

lemma sin_2_NPY_PI: "sin (2 * NPY_PI) < 0"
proof -
  have "2 < NPY_PI" by (simp add: NPY_PI_def)
  then have "0 < 2 * pi - 2 * NPY_PI" "2 * pi - 2 * NPY_PI < pi"
    using pi_lower pi_less_4 by (simp_all add: NPY_PI_def)
  then have "0 < sin (2 * pi - 2 * NPY_PI)" by (rule sin_gt_zero)
  then show ?thesis by simp
qed

text \<open>
  \<open>m111.model\<close> in binary64 on the draw \<open>fl_draw\<close>: with every angle \<open>0\<close> the two samples
  are \<open>0.75 + 0i\<close>; with \<open>psi01_deg = 180\<close> their imaginary part is not zero.
\<close>

lemma m111_model_fl_0:
  "m111_model_fl fl_draw [0, 1] = Inr [Complex (3 / 4) 0, Complex (3 / 4) 0]"
  by (simp add: m111_model_fl_def fl_draw_def getitem_def bind_err_def ones_like_def
      phase_quArr_fl_def cmul_fl_def cadd_fl_def exp_fl_def radians_fl_0 fl_0 fl_1
      fl_half fl_quarter fl_3_quarters)

lemma m111_model_fl_180:
  "\<exists>re im. im \<noteq> 0 \<and>
     m111_model_fl (fl_draw(''psi01_deg'' \<mapsto> 180)) [0, 1] = Inr [Complex re im, Complex re im]"
  using sin_2_NPY_PI
  by (simp add: m111_model_fl_def fl_draw_def getitem_def bind_err_def ones_like_def
      phase_quArr_fl_def cmul_fl_def cadd_fl_def exp_fl_def radians_fl_0 radians_fl_180 fl_0 fl_1
      fl_half fl_quarter fl_NPY_PI fl_2_NPY_PI fl_eq_0_iff)

subsection \<open>The periodic boundary of the intrinsic angles\<close>

lemma exp_2j_shift:
  "exp (2 * \<i> * (complex_of_real (radians 180) + z)) =
   exp (2 * \<i> * (complex_of_real (radians 0) + z))"
proof -
  have "2 * \<i> * (complex_of_real (radians 180) + z) = 2 * complex_of_real pi * \<i> + 2 * \<i> * z"
    by (simp add: radians_def algebra_simps)
  then show ?thesis
    by (simp add: exp_add exp_two_pi_i radians_def)
qed

lemma m111_psi0_shift:
  assumes "k \<in> {''psi01_deg'', ''psi02_deg'', ''psi03_deg''}" and "pDict k = Some 0"
  shows "m111_model (pDict(k \<mapsto> 180)) lam = m111_model pDict lam"
proof (cases "find (\<lambda>k'. pDict k' = None) m111_model_keys")
  case (Some k')
  then have "find (\<lambda>k'. (pDict(k \<mapsto> 180)) k' = None) m111_model_keys = Some k'"
    by (simp only: missing_upd [of pDict k 0, OF assms(2)])
  then have "m111_model (pDict(k \<mapsto> 180)) lam = Inl (KeyError k')"
    by (rule m111_model_missing)
  moreover have "m111_model pDict lam = Inl (KeyError k')"
    using Some by (rule m111_model_missing)
  ultimately show ?thesis by simp
next
  case None
  then have "set m111_model_keys \<subseteq> dom pDict"
    by (simp add: find_missing_None)
  then obtain p1 p2 p3 a1 a2 a3 r1 r2 r3 where v:
    "pDict ''fracPol1'' = Some p1" "pDict ''fracPol2'' = Some p2" "pDict ''fracPol3'' = Some p3"
    "pDict ''psi01_deg'' = Some a1" "pDict ''psi02_deg'' = Some a2" "pDict ''psi03_deg'' = Some a3"
    "pDict ''RM1_radm2'' = Some r1" "pDict ''RM2_radm2'' = Some r2" "pDict ''RM3_radm2'' = Some r3"
    by (rule m111_keys_values)
  from assms consider "k = ''psi01_deg''" "a1 = 0" | "k = ''psi02_deg''" "a2 = 0"
    | "k = ''psi03_deg''" "a3 = 0"
    using v by auto
  then show ?thesis
  proof cases
    case 1
    show ?thesis
      using m111_model_value [of "pDict(k \<mapsto> 180)" p1 p2 p3 180 a2 a3 r1 r2 r3 lam]
      by (simp add: 1 v m111_model_value [OF v] exp_2j_shift)
  next
    case 2
    show ?thesis
      using m111_model_value [of "pDict(k \<mapsto> 180)" p1 p2 p3 a1 180 a3 r1 r2 r3 lam]
      by (simp add: 2 v m111_model_value [OF v] exp_2j_shift)
  next
    case 3
    show ?thesis
      using m111_model_value [of "pDict(k \<mapsto> 180)" p1 p2 p3 a1 a2 180 r1 r2 r3 lam]
      by (simp add: 3 v m111_model_value [OF v] exp_2j_shift)
  qed
qed

lemma m6_psi0_shift:
  assumes "k \<in> {''psi01_deg'', ''psi02_deg''}" and "pDict k = Some 0"
  shows "m6_model (pDict(k \<mapsto> 180)) lam = m6_model pDict lam"
proof (cases "find (\<lambda>k'. pDict k' = None) m6_model_keys")
  case (Some k')
  then have "find (\<lambda>k'. (pDict(k \<mapsto> 180)) k' = None) m6_model_keys = Some k'"
    by (simp only: missing_upd [of pDict k 0, OF assms(2)])
  then have "m6_model (pDict(k \<mapsto> 180)) lam = Inl (KeyError k')"
    by (rule m6_model_missing)
  moreover have "m6_model pDict lam = Inl (KeyError k')"
    using Some by (rule m6_model_missing)
  ultimately show ?thesis by simp
next
  case None
  then have "set m6_model_keys \<subseteq> dom pDict"
    by (simp add: find_missing_None)
  then obtain p1 p2 a1 a2 r1 r2 d1 d2 where v:
    "pDict ''fracPol1'' = Some p1" "pDict ''fracPol2'' = Some p2"
    "pDict ''psi01_deg'' = Some a1" "pDict ''psi02_deg'' = Some a2"
    "pDict ''RM1_radm2'' = Some r1" "pDict ''RM2_radm2'' = Some r2"
    "pDict ''deltaRM1_radm2'' = Some d1" "pDict ''deltaRM2_radm2'' = Some d2"
    by (rule m6_keys_values)
  from assms consider "k = ''psi01_deg''" "a1 = 0" | "k = ''psi02_deg''" "a2 = 0"
    using v by auto
  then show ?thesis
  proof cases
    case 1
    show ?thesis
      using m6_model_value [of "pDict(k \<mapsto> 180)" p1 p2 180 a2 r1 r2 d1 d2 lam]
      by (simp add: 1 v m6_model_value [OF v] exp_2j_shift)
  next
    case 2
    show ?thesis
      using m6_model_value [of "pDict(k \<mapsto> 180)" p1 p2 a1 180 r1 r2 d1 d2 lam]
      by (simp add: 2 v m6_model_value [OF v] exp_2j_shift)
  qed
qed

text \<open>
  Claim C8, as stated: storing \<open>180\<close> under an intrinsic angle that is \<open>0\<close> leaves the
  output of the model function unchanged. In binary64 it does not: \<open>np.radians(180.0)\<close> is
  a double, not \<open>\<pi>\<close>, and the imaginary part of \<open>np.exp(2j * np.radians(180.0))\<close> is not
  zero.
\<close>

theorem psi0_180_float_counterexample:
  "fl_draw ''psi01_deg'' = Some 0 \<and>
   m111_model_fl (fl_draw(''psi01_deg'' \<mapsto> 180)) [0, 1] \<noteq> m111_model_fl fl_draw [0, 1]"
proof
  show "fl_draw ''psi01_deg'' = Some 0"
    by (simp add: fl_draw_def)
  from m111_model_fl_180 obtain re im where "im \<noteq> 0"
    and "m111_model_fl (fl_draw(''psi01_deg'' \<mapsto> 180)) [0, 1] =
           Inr [Complex re im, Complex re im]"
    by blast
  then show "m111_model_fl (fl_draw(''psi01_deg'' \<mapsto> 180)) [0, 1] \<noteq>
      m111_model_fl fl_draw [0, 1]"
    by (simp add: m111_model_fl_0)
qed

text \<open>
  Claim C8, amended. In exact real and complex arithmetic, where \<open>exp(2i\<pi>) = 1\<close>: in a
  parameter dictionary where an intrinsic angle \<open>psi0k_deg\<close> is \<open>0\<close>, storing \<open>180\<close> under
  that key leaves the value of the model function unchanged, for the three angles of
  \<open>m111\<close> and the two of \<open>m6\<close>; the prior of each of these keys is declared with minimum
  \<open>0\<close>, maximum \<open>180\<close> and \<open>boundary="periodic"\<close>. The result is the same error when
  another key is missing.
\<close>

theorem psi0_periodic_boundary:
  assumes "pDict k = Some 0"
  shows "(k \<in> {''psi01_deg'', ''psi02_deg'', ''psi03_deg''} \<longrightarrow>
            m111_model (pDict(k \<mapsto> 180)) lam = m111_model pDict lam \<and>
            map_option minimum (map_of m111_priors k) = Some 0 \<and>
            map_option maximum (map_of m111_priors k) = Some 180 \<and>
            map_option boundary (map_of m111_priors k) = Some (Some ''periodic'')) \<and>
         (k \<in> {''psi01_deg'', ''psi02_deg''} \<longrightarrow>
            m6_model (pDict(k \<mapsto> 180)) lam = m6_model pDict lam \<and>
            map_option minimum (map_of m6_priors k) = Some 0 \<and>
            map_option maximum (map_of m6_priors k) = Some 180 \<and>
            map_option boundary (map_of m6_priors k) = Some (Some ''periodic''))"
proof (intro conjI impI)
  assume "k \<in> {''psi01_deg'', ''psi02_deg'', ''psi03_deg''}"
  then show "m111_model (pDict(k \<mapsto> 180)) lam = m111_model pDict lam"
    using assms by (rule m111_psi0_shift)
next
  assume "k \<in> {''psi01_deg'', ''psi02_deg''}"
  then show "m6_model (pDict(k \<mapsto> 180)) lam = m6_model pDict lam"
    using assms by (rule m6_psi0_shift)
qed (auto simp: m111_priors_def m6_priors_def)

theorem psi0_periodic_boundary_witness:
  "(m111_draw(''RM2_radm2'' \<mapsto> 3)) ''psi02_deg'' = Some 0 \<and>
   ''psi02_deg'' \<in> {''psi01_deg'', ''psi02_deg'', ''psi03_deg''} \<and>
   m111_model ((m111_draw(''RM2_radm2'' \<mapsto> 3))(''psi02_deg'' \<mapsto> 180)) [0, 1] =
     m111_model (m111_draw(''RM2_radm2'' \<mapsto> 3)) [0, 1] \<and>
   m6_finite ''psi01_deg'' = Some 0 \<and> ''psi01_deg'' \<in> {''psi01_deg'', ''psi02_deg''} \<and>
   m6_model (m6_finite(''psi01_deg'' \<mapsto> 180)) [1, 2] = m6_model m6_finite [1, 2] \<and>
   (\<exists>v w. m6_model m6_finite [1, 2] = Inr [Val v, Val w])"
proof -
  have f: "\<exists>v w. m6_model m6_finite [1, 2] = Inr [Val v, Val w]"
    using m6_model_value [of m6_finite "0.3" "0.2" 0 90 10 "-5" 2 4 "[1, 2]"]
    by (simp add: m6_finite_def m6_draw_def true_divide_def)
  have h111: "(m111_draw(''RM2_radm2'' \<mapsto> 3)) ''psi02_deg'' = Some 0"
    by (simp add: m111_draw_def)
  have h6: "m6_finite ''psi01_deg'' = Some 0"
    by (simp add: m6_finite_def m6_draw_def)
  note t111 = psi0_periodic_boundary [of "m111_draw(''RM2_radm2'' \<mapsto> 3)" "''psi02_deg''" "[0, 1]"]
  note t6 = psi0_periodic_boundary [of m6_finite "''psi01_deg''" "[1, 2]"]
  from t111 h111 have e111:
    "m111_model ((m111_draw(''RM2_radm2'' \<mapsto> 3))(''psi02_deg'' \<mapsto> 180)) [0, 1] =
     m111_model (m111_draw(''RM2_radm2'' \<mapsto> 3)) [0, 1]"
    by simp
  from t6 h6 have e6:
    "m6_model (m6_finite(''psi01_deg'' \<mapsto> 180)) [1, 2] = m6_model m6_finite [1, 2]"
    by simp
  show ?thesis
    using f h111 h6 e111 e6 by simp
qed

subsection \<open>What the conversion functions return\<close>

lemma m111_converter_value:
  assumes "parameters ''RM1_radm2'' = Some r1" "parameters ''RM2_radm2'' = Some r2"
    "parameters ''RM3_radm2'' = Some r3"
    "parameters ''fracPol1'' = Some p1" "parameters ''fracPol2'' = Some p2"
    "parameters ''fracPol3'' = Some p3"
  shows "m111_converter parameters =
     Inr (parameters(''delta_RM1_RM2_radm2'' \<mapsto> r1 - r2, ''delta_RM2_RM3_radm2'' \<mapsto> r2 - r3,
            ''sum_p1_p2_p3'' \<mapsto> p1 + p2 + p3))"
  unfolding m111_converter_def
  by (simp add: assms getitem_Some bind_err_Inr)

lemma m6_converter_value:
  assumes "parameters ''RM1_radm2'' = Some r1" "parameters ''RM2_radm2'' = Some r2"
    "parameters ''fracPol1'' = Some p1" "parameters ''fracPol2'' = Some p2"
  shows "m6_converter parameters =
     Inr (parameters(''delta_RM1_RM2_radm2'' \<mapsto> r1 - r2, ''sum_p1_p2'' \<mapsto> p1 + p2))"
  unfolding m6_converter_def
  by (simp add: assms getitem_Some bind_err_Inr)

lemma m111_converter_missing:
  assumes "find (\<lambda>k. parameters k = None) m111_converter_keys = Some k"
  shows "m111_converter parameters = Inl (KeyError k)"
  using assms unfolding m111_converter_def m111_converter_keys_def
  by (auto simp: getitem_def bind_err_def split: option.splits if_splits)

lemma m6_converter_missing:
  assumes "find (\<lambda>k. parameters k = None) m6_converter_keys = Some k"
  shows "m6_converter parameters = Inl (KeyError k)"
  using assms unfolding m6_converter_def m6_converter_keys_def
  by (auto simp: getitem_def bind_err_def split: option.splits if_splits)

lemma m111_converter_keys_values:
  assumes "set m111_converter_keys \<subseteq> dom parameters"
  obtains r1 r2 r3 p1 p2 p3 where
    "parameters ''RM1_radm2'' = Some r1" "parameters ''RM2_radm2'' = Some r2"
    "parameters ''RM3_radm2'' = Some r3"
    "parameters ''fracPol1'' = Some p1" "parameters ''fracPol2'' = Some p2"
    "parameters ''fracPol3'' = Some p3"
  using assms unfolding m111_converter_keys_def by (auto simp: dom_def)

lemma m6_converter_keys_values:
  assumes "set m6_converter_keys \<subseteq> dom parameters"
  obtains r1 r2 p1 p2 where
    "parameters ''RM1_radm2'' = Some r1" "parameters ''RM2_radm2'' = Some r2"
    "parameters ''fracPol1'' = Some p1" "parameters ''fracPol2'' = Some p2"
  using assms unfolding m6_converter_keys_def by (auto simp: dom_def)

lemma m111_converter_other_keys:
  assumes "m111_converter parameters = Inr q" and "k \<notin> set m111_derived_keys"
  shows "q k = parameters k"
  using assms unfolding m111_converter_def m111_derived_keys_def
  by (auto simp: getitem_def bind_err_def split: option.splits)

lemma m6_converter_other_keys:
  assumes "m6_converter parameters = Inr q" and "k \<notin> set m6_derived_keys"
  shows "q k = parameters k"
  using assms unfolding m6_converter_def m6_derived_keys_def
  by (auto simp: getitem_def bind_err_def split: option.splits)

lemma m111_converter_twice:
  assumes "set m111_converter_keys \<subseteq> dom parameters"
  shows "\<exists>q. m111_converter parameters = Inr q \<and> m111_converter q = Inr q \<and>
           set m111_derived_keys \<subseteq> dom q"
proof -
  from assms obtain r1 r2 r3 p1 p2 p3 where v:
    "parameters ''RM1_radm2'' = Some r1" "parameters ''RM2_radm2'' = Some r2"
    "parameters ''RM3_radm2'' = Some r3"
    "parameters ''fracPol1'' = Some p1" "parameters ''fracPol2'' = Some p2"
    "parameters ''fracPol3'' = Some p3"
    by (rule m111_converter_keys_values)
  let ?q = "parameters(''delta_RM1_RM2_radm2'' \<mapsto> r1 - r2,
              ''delta_RM2_RM3_radm2'' \<mapsto> r2 - r3, ''sum_p1_p2_p3'' \<mapsto> p1 + p2 + p3)"
  have "m111_converter ?q = Inr (?q(''delta_RM1_RM2_radm2'' \<mapsto> r1 - r2,
              ''delta_RM2_RM3_radm2'' \<mapsto> r2 - r3, ''sum_p1_p2_p3'' \<mapsto> p1 + p2 + p3))"
    by (rule m111_converter_value) (simp_all add: v)
  also have "?q(''delta_RM1_RM2_radm2'' \<mapsto> r1 - r2,
              ''delta_RM2_RM3_radm2'' \<mapsto> r2 - r3, ''sum_p1_p2_p3'' \<mapsto> p1 + p2 + p3) = ?q"
    by (auto simp: fun_eq_iff)
  finally have "m111_converter ?q = Inr ?q" .
  moreover have "set m111_derived_keys \<subseteq> dom ?q"
    by (simp add: m111_derived_keys_def)
  ultimately show ?thesis
    unfolding m111_converter_value [OF v] by blast
qed

lemma m6_converter_twice:
  assumes "set m6_converter_keys \<subseteq> dom parameters"
  shows "\<exists>q. m6_converter parameters = Inr q \<and> m6_converter q = Inr q \<and>
           set m6_derived_keys \<subseteq> dom q"
proof -
  from assms obtain r1 r2 p1 p2 where v:
    "parameters ''RM1_radm2'' = Some r1" "parameters ''RM2_radm2'' = Some r2"
    "parameters ''fracPol1'' = Some p1" "parameters ''fracPol2'' = Some p2"
    by (rule m6_converter_keys_values)
  let ?q = "parameters(''delta_RM1_RM2_radm2'' \<mapsto> r1 - r2, ''sum_p1_p2'' \<mapsto> p1 + p2)"
  have "m6_converter ?q =
          Inr (?q(''delta_RM1_RM2_radm2'' \<mapsto> r1 - r2, ''sum_p1_p2'' \<mapsto> p1 + p2))"
    by (rule m6_converter_value) (simp_all add: v)
  also have "?q(''delta_RM1_RM2_radm2'' \<mapsto> r1 - r2, ''sum_p1_p2'' \<mapsto> p1 + p2) = ?q"
    by (auto simp: fun_eq_iff)
  finally have "m6_converter ?q = Inr ?q" .
  moreover have "set m6_derived_keys \<subseteq> dom ?q"
    by (simp add: m6_derived_keys_def)
  ultimately show ?thesis
    unfolding m6_converter_value [OF v] by blast
qed

text \<open>
  On the store, a call returns a dictionary with the contents the function on contents
  gives for the contents of its argument, or raises the same error.
\<close>

lemma m111_converter_ref_returned:
  assumes "parameters < length s"
  shows "returned (m111_converter_ref s parameters) = m111_converter (s ! parameters)"
  using assms unfolding m111_converter_ref_def m111_converter_def dict_copy_def returned_def
  by (auto simp: dict_getitem_def dict_setitem_def getitem_def bind_err_def nth_append
      split: option.splits)

lemma m6_converter_ref_returned:
  assumes "parameters < length s"
  shows "returned (m6_converter_ref s parameters) = m6_converter (s ! parameters)"
  using assms unfolding m6_converter_ref_def m6_converter_def dict_copy_def returned_def
  by (auto simp: dict_getitem_def dict_setitem_def getitem_def bind_err_def nth_append
      split: option.splits)

lemma m111_converter_ref_frame:
  assumes "parameters < length s" and "d < length s"
  shows "fst (m111_converter_ref s parameters) ! d = s ! d"
  using assms unfolding m111_converter_ref_def dict_copy_def
  by (auto simp: dict_getitem_def dict_setitem_def getitem_def bind_err_def nth_append Let_def
      split: option.splits sum.splits)

lemma m6_converter_ref_frame:
  assumes "parameters < length s" and "d < length s"
  shows "fst (m6_converter_ref s parameters) ! d = s ! d"
  using assms unfolding m6_converter_ref_def dict_copy_def
  by (auto simp: dict_getitem_def dict_setitem_def getitem_def bind_err_def nth_append Let_def
      split: option.splits sum.splits)

lemma m111_converter_ref_fresh:
  assumes "parameters < length s" and "snd (m111_converter_ref s parameters) = Inr c"
  shows "c = length s \<and> length (fst (m111_converter_ref s parameters)) = Suc (length s)"
  using assms unfolding m111_converter_ref_def dict_copy_def
  by (auto simp: dict_setitem_def Let_def split: sum.splits)

lemma m6_converter_ref_fresh:
  assumes "parameters < length s" and "snd (m6_converter_ref s parameters) = Inr c"
  shows "c = length s \<and> length (fst (m6_converter_ref s parameters)) = Suc (length s)"
  using assms unfolding m6_converter_ref_def dict_copy_def
  by (auto simp: dict_setitem_def Let_def split: sum.splits)

lemma returned_Inr:
  "snd r = Inr c \<Longrightarrow> returned r = Inr (fst r ! c)"
  by (cases r) (simp add: returned_def)

text \<open>
  Claim C5. For a draw that holds the six keys \<open>converter\<close> of \<open>m111.py\<close> reads, the
  converted dictionary holds \<open>fracPol1 + fracPol2 + fracPol3\<close> under \<open>sum_p1_p2_p3\<close> and the
  two differences of rotation measures under the ordering keys. The prior of
  \<open>sum_p1_p2_p3\<close> is a constraint with minimum \<open>0\<close> and maximum \<open>1\<close>, so that a sum of
  \<open>1.5\<close> lies outside its bounds; the priors of the two ordering keys are constraints
  with minimum \<open>0\<close> and maximum \<open>2200\<close>.
\<close>

theorem m111_sum_constraint:
  assumes "parameters ''RM1_radm2'' = Some r1" "parameters ''RM2_radm2'' = Some r2"
    "parameters ''RM3_radm2'' = Some r3"
    "parameters ''fracPol1'' = Some p1" "parameters ''fracPol2'' = Some p2"
    "parameters ''fracPol3'' = Some p3"
  shows "\<exists>q sum_prior d12_prior d23_prior.
           m111_converter parameters = Inr q \<and>
           q ''sum_p1_p2_p3'' = Some (p1 + p2 + p3) \<and>
           q ''delta_RM1_RM2_radm2'' = Some (r1 - r2) \<and>
           q ''delta_RM2_RM3_radm2'' = Some (r2 - r3) \<and>
           map_of m111_priors ''sum_p1_p2_p3'' = Some sum_prior \<and>
           is_constraint sum_prior \<and> minimum sum_prior = 0 \<and> maximum sum_prior = 1 \<and>
           (p1 + p2 + p3 = 1.5 \<longrightarrow> p1 + p2 + p3 \<notin> {minimum sum_prior .. maximum sum_prior}) \<and>
           map_of m111_priors ''delta_RM1_RM2_radm2'' = Some d12_prior \<and>
           is_constraint d12_prior \<and> minimum d12_prior = 0 \<and> maximum d12_prior = 2200 \<and>
           map_of m111_priors ''delta_RM2_RM3_radm2'' = Some d23_prior \<and>
           is_constraint d23_prior \<and> minimum d23_prior = 0 \<and> maximum d23_prior = 2200"
  unfolding m111_converter_value [OF assms]
  by (simp add: m111_priors_def)

theorem m111_sum_constraint_witness:
  "m111_over ''RM1_radm2'' = Some 0 \<and> m111_over ''RM2_radm2'' = Some 0 \<and>
   m111_over ''RM3_radm2'' = Some 0 \<and>
   m111_over ''fracPol1'' = Some 0.5 \<and> m111_over ''fracPol2'' = Some 0.5 \<and>
   m111_over ''fracPol3'' = Some 0.5 \<and> (0.5 + 0.5 + 0.5 = (1.5::real)) \<and>
   (\<exists>q sum_prior. m111_converter m111_over = Inr q \<and> q ''sum_p1_p2_p3'' = Some 1.5 \<and>
      map_of m111_priors ''sum_p1_p2_p3'' = Some sum_prior \<and>
      (1.5::real) \<notin> {minimum sum_prior .. maximum sum_prior})"
  using m111_sum_constraint [of m111_over 0 0 0 "0.5" "0.5" "0.5"]
  by (auto simp: m111_over_def m111_draw_def)

text \<open>
  Claim C6. For a dictionary that holds the keys a conversion function reads, converting
  the converted dictionary again returns it as it is, so every derived key (all of them
  are present) keeps its value. The result of a call depends on the contents of the
  argument only: two calls on dictionaries of equal contents, in any two stores, return
  equal contents or raise the same error.
\<close>

theorem converter_idempotent:
  "(set m111_converter_keys \<subseteq> dom p111 \<longrightarrow>
      (\<exists>q. m111_converter p111 = Inr q \<and> m111_converter q = Inr q \<and>
           set m111_derived_keys \<subseteq> dom q)) \<and>
   (set m6_converter_keys \<subseteq> dom p6 \<longrightarrow>
      (\<exists>q. m6_converter p6 = Inr q \<and> m6_converter q = Inr q \<and>
           set m6_derived_keys \<subseteq> dom q)) \<and>
   (d < length s \<and> d' < length s' \<and> s ! d = s' ! d' \<longrightarrow>
      returned (m111_converter_ref s d) = returned (m111_converter_ref s' d') \<and>
      returned (m6_converter_ref s d) = returned (m6_converter_ref s' d'))"
  by (simp add: m111_converter_twice m6_converter_twice m111_converter_ref_returned
      m6_converter_ref_returned)

theorem converter_idempotent_witness:
  "set m111_converter_keys \<subseteq> dom m111_draw \<and> set m6_converter_keys \<subseteq> dom m6_draw \<and>
   (0::nat) < length [m111_draw] \<and> (1::nat) < length [m6_draw, m111_draw] \<and>
   [m111_draw] ! 0 = [m6_draw, m111_draw] ! 1 \<and>
   (\<exists>q. m111_converter m111_draw = Inr q \<and> m111_converter q = Inr q) \<and>
   (\<exists>q. m6_converter m6_draw = Inr q \<and> m6_converter q = Inr q) \<and>
   returned (m111_converter_ref [m111_draw] 0) =
     returned (m111_converter_ref [m6_draw, m111_draw] 1)"
proof -
  have h: "set m111_converter_keys \<subseteq> dom m111_draw" "set m6_converter_keys \<subseteq> dom m6_draw"
    by (simp_all add: m111_converter_keys_def m6_converter_keys_def m111_draw_def m6_draw_def)
  show ?thesis
    using h converter_idempotent [of m111_draw m6_draw 0 "[m111_draw]" 1 "[m6_draw, m111_draw]"]
    by auto
qed

subsection \<open>The priors\<close>

lemma m111_sampled_keys:
  "sampled_keys m111_priors =
     [''fracPol1'', ''fracPol2'', ''fracPol3'', ''psi01_deg'', ''psi02_deg'', ''psi03_deg'',
      ''RM1_radm2'', ''RM2_radm2'', ''RM3_radm2'']"
  by (simp add: sampled_keys_def m111_priors_def)

lemma m6_sampled_keys:
  "sampled_keys m6_priors =
     [''fracPol1'', ''fracPol2'', ''psi01_deg'', ''psi02_deg'', ''RM1_radm2'', ''RM2_radm2'',
      ''deltaRM1_radm2'', ''deltaRM2_radm2'']"
  by (simp add: sampled_keys_def m6_priors_def)

lemma m111_constraint_keys: "constraint_keys m111_priors = m111_derived_keys"
  by (simp add: constraint_keys_def m111_priors_def m111_derived_keys_def)

lemma m6_constraint_keys: "constraint_keys m6_priors = m6_derived_keys"
  by (simp add: constraint_keys_def m6_priors_def m6_derived_keys_def)

lemma m111_reproducible:
  assumes "\<forall>k\<in>set (sampled_keys m111_priors). p k \<noteq> None \<and> p' k = p k"
  shows "\<exists>q q'. m111_converter p = Inr q \<and> m111_converter p' = Inr q' \<and>
           (\<forall>c\<in>set (constraint_keys m111_priors). q c \<noteq> None \<and> q' c = q c)"
proof -
  from assms obtain r1 r2 r3 p1 p2 p3 where v:
    "p ''RM1_radm2'' = Some r1" "p ''RM2_radm2'' = Some r2" "p ''RM3_radm2'' = Some r3"
    "p ''fracPol1'' = Some p1" "p ''fracPol2'' = Some p2" "p ''fracPol3'' = Some p3"
    unfolding m111_sampled_keys by auto
  with assms have v':
    "p' ''RM1_radm2'' = Some r1" "p' ''RM2_radm2'' = Some r2" "p' ''RM3_radm2'' = Some r3"
    "p' ''fracPol1'' = Some p1" "p' ''fracPol2'' = Some p2" "p' ''fracPol3'' = Some p3"
    unfolding m111_sampled_keys by auto
  show ?thesis
    unfolding m111_converter_value [OF v] m111_converter_value [OF v'] m111_constraint_keys
    by (simp add: m111_derived_keys_def)
qed

lemma m6_reproducible:
  assumes "\<forall>k\<in>set (sampled_keys m6_priors). p k \<noteq> None \<and> p' k = p k"
  shows "\<exists>q q'. m6_converter p = Inr q \<and> m6_converter p' = Inr q' \<and>
           (\<forall>c\<in>set (constraint_keys m6_priors). q c \<noteq> None \<and> q' c = q c)"
proof -
  from assms obtain r1 r2 p1 p2 where v:
    "p ''RM1_radm2'' = Some r1" "p ''RM2_radm2'' = Some r2"
    "p ''fracPol1'' = Some p1" "p ''fracPol2'' = Some p2"
    unfolding m6_sampled_keys by auto
  with assms have v':
    "p' ''RM1_radm2'' = Some r1" "p' ''RM2_radm2'' = Some r2"
    "p' ''fracPol1'' = Some p1" "p' ''fracPol2'' = Some p2"
    unfolding m6_sampled_keys by auto
  show ?thesis
    unfolding m6_converter_value [OF v] m6_converter_value [OF v'] m6_constraint_keys
    by (simp add: m6_derived_keys_def)
qed

text \<open>
  Claim C9. Every key a model function reads is a key of the prior dictionary of its
  file. Every constraint key of a prior dictionary is present in the result of the
  conversion function on a draw of the sampled (non-constraint) keys, with a value that
  these sampled values determine: two dictionaries that agree on the sampled keys get
  the same constraint values.
\<close>

theorem priors_cover_model:
  "set m111_model_keys \<subseteq> set (prior_keys m111_priors) \<and>
   set m6_model_keys \<subseteq> set (prior_keys m6_priors) \<and>
   ((\<forall>k\<in>set (sampled_keys m111_priors). p k \<noteq> None \<and> p' k = p k) \<longrightarrow>
      (\<exists>q q'. m111_converter p = Inr q \<and> m111_converter p' = Inr q' \<and>
         (\<forall>c\<in>set (constraint_keys m111_priors). q c \<noteq> None \<and> q' c = q c))) \<and>
   ((\<forall>k\<in>set (sampled_keys m6_priors). p k \<noteq> None \<and> p' k = p k) \<longrightarrow>
      (\<exists>q q'. m6_converter p = Inr q \<and> m6_converter p' = Inr q' \<and>
         (\<forall>c\<in>set (constraint_keys m6_priors). q c \<noteq> None \<and> q' c = q c)))"
proof (intro conjI impI)
  show "set m111_model_keys \<subseteq> set (prior_keys m111_priors)"
    by (simp add: m111_model_keys_def prior_keys_def m111_priors_def)
  show "set m6_model_keys \<subseteq> set (prior_keys m6_priors)"
    by (simp add: m6_model_keys_def prior_keys_def m6_priors_def)
qed (erule m111_reproducible, erule m6_reproducible)

theorem priors_cover_model_witness:
  "list_all (\<lambda>k. m111_draw k \<noteq> None \<and> m111_stale k = m111_draw k)
     (sampled_keys m111_priors) \<and>
   (\<exists>q q'. m111_converter m111_draw = Inr q \<and> m111_converter m111_stale = Inr q' \<and>
      (\<forall>c\<in>set (constraint_keys m111_priors). q c \<noteq> None \<and> q' c = q c)) \<and>
   list_all (\<lambda>k. m6_draw k \<noteq> None \<and> m6_stale k = m6_draw k)
     (sampled_keys m6_priors) \<and>
   (\<exists>q q'. m6_converter m6_draw = Inr q \<and> m6_converter m6_stale = Inr q' \<and>
      (\<forall>c\<in>set (constraint_keys m6_priors). q c \<noteq> None \<and> q' c = q c))"
proof -
  have h111: "\<forall>k\<in>set (sampled_keys m111_priors). m111_draw k \<noteq> None \<and> m111_stale k = m111_draw k"
    by (simp add: m111_sampled_keys m111_stale_def m111_draw_def del: not_None_eq)
  have h6: "\<forall>k\<in>set (sampled_keys m6_priors). m6_draw k \<noteq> None \<and> m6_stale k = m6_draw k"
    by (simp add: m6_sampled_keys m6_stale_def m6_draw_def del: not_None_eq)
  show ?thesis
    unfolding list_all_iff
    using h111 h6 priors_cover_model [of m111_draw m111_stale]
      priors_cover_model [of m6_draw m6_stale]
    by blast
qed

subsection \<open>What a conversion does to the dictionaries of its caller\<close>

lemma m111_converter_Inr:
  assumes "m111_converter parameters = Inr q"
  shows "\<exists>r1 r2 r3 p1 p2 p3.
           parameters ''RM1_radm2'' = Some r1 \<and> parameters ''RM2_radm2'' = Some r2 \<and>
           parameters ''RM3_radm2'' = Some r3 \<and>
           parameters ''fracPol1'' = Some p1 \<and> parameters ''fracPol2'' = Some p2 \<and>
           parameters ''fracPol3'' = Some p3 \<and>
           q = parameters(''delta_RM1_RM2_radm2'' \<mapsto> r1 - r2,
                 ''delta_RM2_RM3_radm2'' \<mapsto> r2 - r3, ''sum_p1_p2_p3'' \<mapsto> p1 + p2 + p3)"
proof (cases "find (\<lambda>k. parameters k = None) m111_converter_keys")
  case (Some k)
  then show ?thesis
    using assms by (simp add: m111_converter_missing)
next
  case None
  then have "set m111_converter_keys \<subseteq> dom parameters"
    by (simp add: find_missing_None)
  then obtain r1 r2 r3 p1 p2 p3 where v:
    "parameters ''RM1_radm2'' = Some r1" "parameters ''RM2_radm2'' = Some r2"
    "parameters ''RM3_radm2'' = Some r3"
    "parameters ''fracPol1'' = Some p1" "parameters ''fracPol2'' = Some p2"
    "parameters ''fracPol3'' = Some p3"
    by (rule m111_converter_keys_values)
  from assms have "q = parameters(''delta_RM1_RM2_radm2'' \<mapsto> r1 - r2,
                 ''delta_RM2_RM3_radm2'' \<mapsto> r2 - r3, ''sum_p1_p2_p3'' \<mapsto> p1 + p2 + p3)"
    unfolding m111_converter_value [OF v] by simp
  with v show ?thesis by blast
qed

lemma m6_converter_Inr:
  assumes "m6_converter parameters = Inr q"
  shows "\<exists>r1 r2 p1 p2.
           parameters ''RM1_radm2'' = Some r1 \<and> parameters ''RM2_radm2'' = Some r2 \<and>
           parameters ''fracPol1'' = Some p1 \<and> parameters ''fracPol2'' = Some p2 \<and>
           q = parameters(''delta_RM1_RM2_radm2'' \<mapsto> r1 - r2, ''sum_p1_p2'' \<mapsto> p1 + p2)"
proof (cases "find (\<lambda>k. parameters k = None) m6_converter_keys")
  case (Some k)
  then show ?thesis
    using assms by (simp add: m6_converter_missing)
next
  case None
  then have "set m6_converter_keys \<subseteq> dom parameters"
    by (simp add: find_missing_None)
  then obtain r1 r2 p1 p2 where v:
    "parameters ''RM1_radm2'' = Some r1" "parameters ''RM2_radm2'' = Some r2"
    "parameters ''fracPol1'' = Some p1" "parameters ''fracPol2'' = Some p2"
    by (rule m6_converter_keys_values)
  from assms have "q = parameters(''delta_RM1_RM2_radm2'' \<mapsto> r1 - r2, ''sum_p1_p2'' \<mapsto> p1 + p2)"
    unfolding m6_converter_value [OF v] by simp
  with v show ?thesis by blast
qed

lemma returned_Inr_iff:
  "returned r = Inr q \<longleftrightarrow> (\<exists>c. snd r = Inr c \<and> q = fst r ! c)"
  by (cases r; cases "snd r") (auto simp: returned_def)

lemma m111_converter_ref_succeeds:
  assumes "parameters < length s" and "set m111_converter_keys \<subseteq> dom (s ! parameters)"
  shows "snd (m111_converter_ref s parameters) = Inr (length s)"
proof -
  from assms(2) obtain q where "m111_converter (s ! parameters) = Inr q"
    using m111_converter_twice by blast
  then have "returned (m111_converter_ref s parameters) = Inr q"
    by (simp add: m111_converter_ref_returned [OF assms(1)])
  then obtain c where "snd (m111_converter_ref s parameters) = Inr c"
    by (auto simp: returned_Inr_iff)
  then show ?thesis
    using m111_converter_ref_fresh [OF assms(1)] by auto
qed

lemma m6_converter_ref_succeeds:
  assumes "parameters < length s" and "set m6_converter_keys \<subseteq> dom (s ! parameters)"
  shows "snd (m6_converter_ref s parameters) = Inr (length s)"
proof -
  from assms(2) obtain q where "m6_converter (s ! parameters) = Inr q"
    using m6_converter_twice by blast
  then have "returned (m6_converter_ref s parameters) = Inr q"
    by (simp add: m6_converter_ref_returned [OF assms(1)])
  then obtain c where "snd (m6_converter_ref s parameters) = Inr c"
    by (auto simp: returned_Inr_iff)
  then show ?thesis
    using m6_converter_ref_fresh [OF assms(1)] by auto
qed

lemma m111_converter_ref_result:
  assumes "parameters < length s" and "snd (m111_converter_ref s parameters) = Inr c"
  shows "\<exists>r1 r2 r3 p1 p2 p3.
           (s ! parameters) ''RM1_radm2'' = Some r1 \<and> (s ! parameters) ''RM2_radm2'' = Some r2 \<and>
           (s ! parameters) ''RM3_radm2'' = Some r3 \<and>
           (s ! parameters) ''fracPol1'' = Some p1 \<and> (s ! parameters) ''fracPol2'' = Some p2 \<and>
           (s ! parameters) ''fracPol3'' = Some p3 \<and>
           fst (m111_converter_ref s parameters) ! c =
             (s ! parameters)(''delta_RM1_RM2_radm2'' \<mapsto> r1 - r2,
                ''delta_RM2_RM3_radm2'' \<mapsto> r2 - r3, ''sum_p1_p2_p3'' \<mapsto> p1 + p2 + p3)"
proof -
  from returned_Inr [OF assms(2)]
  have "m111_converter (s ! parameters) = Inr (fst (m111_converter_ref s parameters) ! c)"
    by (simp add: m111_converter_ref_returned [OF assms(1)])
  then show ?thesis by (rule m111_converter_Inr)
qed

lemma m6_converter_ref_result:
  assumes "parameters < length s" and "snd (m6_converter_ref s parameters) = Inr c"
  shows "\<exists>r1 r2 p1 p2.
           (s ! parameters) ''RM1_radm2'' = Some r1 \<and> (s ! parameters) ''RM2_radm2'' = Some r2 \<and>
           (s ! parameters) ''fracPol1'' = Some p1 \<and> (s ! parameters) ''fracPol2'' = Some p2 \<and>
           fst (m6_converter_ref s parameters) ! c =
             (s ! parameters)(''delta_RM1_RM2_radm2'' \<mapsto> r1 - r2, ''sum_p1_p2'' \<mapsto> p1 + p2)"
proof -
  from returned_Inr [OF assms(2)]
  have "m6_converter (s ! parameters) = Inr (fst (m6_converter_ref s parameters) ! c)"
    by (simp add: m6_converter_ref_returned [OF assms(1)])
  then show ?thesis by (rule m6_converter_Inr)
qed

text \<open>
  Claim C10, as stated: every key-value pair of the input is in the returned dictionary.
  It fails for an input that already holds a derived key with another value: the
  assignment to the copy replaces it.
\<close>

theorem converter_keeps_pairs_counterexample:
  "\<not> isl (returned (m111_converter_ref [m111_stale] 0)) \<and>
   m111_stale ''sum_p1_p2_p3'' = Some 5 \<and>
   projr (returned (m111_converter_ref [m111_stale] 0)) ''sum_p1_p2_p3'' = Some (3 / 10) \<and>
   \<not> isl (returned (m6_converter_ref [m6_stale] 0)) \<and>
   m6_stale ''sum_p1_p2'' = Some 5 \<and>
   projr (returned (m6_converter_ref [m6_stale] 0)) ''sum_p1_p2'' = Some (1 / 2)"
  by (simp add: m111_converter_ref_returned m6_converter_ref_returned
      m111_converter_def m6_converter_def m111_stale_def m6_stale_def m111_draw_def m6_draw_def
      getitem_def bind_err_def)

text \<open>
  Claim C10, amended. A conversion function does not change its argument: every
  dictionary of the store is after the call what it was before. When the argument holds
  the keys the function reads, the call returns a new object, which holds under every
  key that is not a derived constraint key what the argument holds under that key, and
  under the derived constraint keys the differences of rotation measures and the sum of
  fractions computed from the argument, whatever the argument held under them.
\<close>

theorem converter_frame:
  assumes "parameters < length s"
  shows "(\<forall>d<length s. fst (m111_converter_ref s parameters) ! d = s ! d) \<and>
         (set m111_converter_keys \<subseteq> dom (s ! parameters) \<longrightarrow>
            snd (m111_converter_ref s parameters) = Inr (length s)) \<and>
         (\<forall>c. snd (m111_converter_ref s parameters) = Inr c \<longrightarrow>
            c = length s \<and>
            (\<forall>k. k \<notin> set m111_derived_keys \<longrightarrow>
               (fst (m111_converter_ref s parameters) ! c) k = (s ! parameters) k) \<and>
            (\<exists>r1 r2 r3 p1 p2 p3.
               (s ! parameters) ''RM1_radm2'' = Some r1 \<and>
               (s ! parameters) ''RM2_radm2'' = Some r2 \<and>
               (s ! parameters) ''RM3_radm2'' = Some r3 \<and>
               (s ! parameters) ''fracPol1'' = Some p1 \<and>
               (s ! parameters) ''fracPol2'' = Some p2 \<and>
               (s ! parameters) ''fracPol3'' = Some p3 \<and>
               fst (m111_converter_ref s parameters) ! c =
                 (s ! parameters)(''delta_RM1_RM2_radm2'' \<mapsto> r1 - r2,
                    ''delta_RM2_RM3_radm2'' \<mapsto> r2 - r3,
                    ''sum_p1_p2_p3'' \<mapsto> p1 + p2 + p3))) \<and>
         (\<forall>d<length s. fst (m6_converter_ref s parameters) ! d = s ! d) \<and>
         (set m6_converter_keys \<subseteq> dom (s ! parameters) \<longrightarrow>
            snd (m6_converter_ref s parameters) = Inr (length s)) \<and>
         (\<forall>c. snd (m6_converter_ref s parameters) = Inr c \<longrightarrow>
            c = length s \<and>
            (\<forall>k. k \<notin> set m6_derived_keys \<longrightarrow>
               (fst (m6_converter_ref s parameters) ! c) k = (s ! parameters) k) \<and>
            (\<exists>r1 r2 p1 p2.
               (s ! parameters) ''RM1_radm2'' = Some r1 \<and>
               (s ! parameters) ''RM2_radm2'' = Some r2 \<and>
               (s ! parameters) ''fracPol1'' = Some p1 \<and>
               (s ! parameters) ''fracPol2'' = Some p2 \<and>
               fst (m6_converter_ref s parameters) ! c =
                 (s ! parameters)(''delta_RM1_RM2_radm2'' \<mapsto> r1 - r2,
                    ''sum_p1_p2'' \<mapsto> p1 + p2)))"
proof (intro conjI allI impI)
  fix c k
  assume c: "snd (m111_converter_ref s parameters) = Inr c" and k: "k \<notin> set m111_derived_keys"
  from returned_Inr [OF c] have "m111_converter (s ! parameters) =
      Inr (fst (m111_converter_ref s parameters) ! c)"
    by (simp add: m111_converter_ref_returned [OF assms])
  then show "(fst (m111_converter_ref s parameters) ! c) k = (s ! parameters) k"
    using k by (rule m111_converter_other_keys)
next
  fix c k
  assume c: "snd (m6_converter_ref s parameters) = Inr c" and k: "k \<notin> set m6_derived_keys"
  from returned_Inr [OF c] have "m6_converter (s ! parameters) =
      Inr (fst (m6_converter_ref s parameters) ! c)"
    by (simp add: m6_converter_ref_returned [OF assms])
  then show "(fst (m6_converter_ref s parameters) ! c) k = (s ! parameters) k"
    using k by (rule m6_converter_other_keys)
next
  fix c assume "snd (m111_converter_ref s parameters) = Inr c"
  with assms show "\<exists>r1 r2 r3 p1 p2 p3.
               (s ! parameters) ''RM1_radm2'' = Some r1 \<and>
               (s ! parameters) ''RM2_radm2'' = Some r2 \<and>
               (s ! parameters) ''RM3_radm2'' = Some r3 \<and>
               (s ! parameters) ''fracPol1'' = Some p1 \<and>
               (s ! parameters) ''fracPol2'' = Some p2 \<and>
               (s ! parameters) ''fracPol3'' = Some p3 \<and>
               fst (m111_converter_ref s parameters) ! c =
                 (s ! parameters)(''delta_RM1_RM2_radm2'' \<mapsto> r1 - r2,
                    ''delta_RM2_RM3_radm2'' \<mapsto> r2 - r3,
                    ''sum_p1_p2_p3'' \<mapsto> p1 + p2 + p3)"
    by (rule m111_converter_ref_result)
next
  fix c assume "snd (m6_converter_ref s parameters) = Inr c"
  with assms show "\<exists>r1 r2 p1 p2.
               (s ! parameters) ''RM1_radm2'' = Some r1 \<and>
               (s ! parameters) ''RM2_radm2'' = Some r2 \<and>
               (s ! parameters) ''fracPol1'' = Some p1 \<and>
               (s ! parameters) ''fracPol2'' = Some p2 \<and>
               fst (m6_converter_ref s parameters) ! c =
                 (s ! parameters)(''delta_RM1_RM2_radm2'' \<mapsto> r1 - r2,
                    ''sum_p1_p2'' \<mapsto> p1 + p2)"
    by (rule m6_converter_ref_result)
qed (use assms in \<open>auto simp: m111_converter_ref_frame m6_converter_ref_frame
       m111_converter_ref_succeeds m6_converter_ref_succeeds
       dest: m111_converter_ref_fresh m6_converter_ref_fresh\<close>)

theorem converter_frame_witness:
  "(1::nat) < length [m6_draw, m111_stale] \<and>
   set m111_converter_keys \<subseteq> dom ([m6_draw, m111_stale] ! 1) \<and>
   set m6_converter_keys \<subseteq> dom ([m6_draw, m111_stale] ! 1) \<and>
   fst (m111_converter_ref [m6_draw, m111_stale] 1) ! 0 = m6_draw \<and>
   fst (m111_converter_ref [m6_draw, m111_stale] 1) ! 1 = m111_stale \<and>
   snd (m111_converter_ref [m6_draw, m111_stale] 1) = Inr 2 \<and>
   m111_stale ''sum_p1_p2_p3'' = Some 5 \<and>
   fst (m111_converter_ref [m6_draw, m111_stale] 1) ! 2 =
     m111_stale(''delta_RM1_RM2_radm2'' \<mapsto> 0, ''delta_RM2_RM3_radm2'' \<mapsto> 0,
        ''sum_p1_p2_p3'' \<mapsto> 3 / 10) \<and>
   snd (m6_converter_ref [m6_draw, m111_stale] 1) = Inr 2 \<and>
   fst (m6_converter_ref [m6_draw, m111_stale] 1) ! 2 =
     m111_stale(''delta_RM1_RM2_radm2'' \<mapsto> 0, ''sum_p1_p2'' \<mapsto> 3 / 10)"
proof -
  let ?s = "[m6_draw, m111_stale]"
  have h: "(1::nat) < length ?s" by simp
  have k: "set m111_converter_keys \<subseteq> dom (?s ! 1)" "set m6_converter_keys \<subseteq> dom (?s ! 1)"
    by (simp_all add: m111_converter_keys_def m6_converter_keys_def m111_stale_def m111_draw_def)
  have v: "m111_stale ''RM1_radm2'' = Some 0" "m111_stale ''RM2_radm2'' = Some 0"
    "m111_stale ''RM3_radm2'' = Some 0" "m111_stale ''fracPol1'' = Some (1 / 10)"
    "m111_stale ''fracPol2'' = Some (1 / 5)" "m111_stale ''fracPol3'' = Some 0"
    "m111_stale ''sum_p1_p2_p3'' = Some 5"
    by (simp_all add: m111_stale_def m111_draw_def)
  note f = converter_frame [OF h]
  note a1 = f [THEN conjunct1]
  note a2 = f [THEN conjunct2, THEN conjunct1]
  note a3 = f [THEN conjunct2, THEN conjunct2, THEN conjunct1]
  note b2 = f [THEN conjunct2, THEN conjunct2, THEN conjunct2, THEN conjunct2, THEN conjunct1]
  note b3 = f [THEN conjunct2, THEN conjunct2, THEN conjunct2, THEN conjunct2, THEN conjunct2]
  from a1 have o: "fst (m111_converter_ref ?s 1) ! 0 = m6_draw"
    "fst (m111_converter_ref ?s 1) ! 1 = m111_stale"
    by simp_all
  from a2 k(1) have r111: "snd (m111_converter_ref ?s 1) = Inr 2" by simp
  from b2 k(2) have r6: "snd (m6_converter_ref ?s 1) = Inr 2" by simp
  from a3 r111 have q111: "fst (m111_converter_ref ?s 1) ! 2 =
      m111_stale(''delta_RM1_RM2_radm2'' \<mapsto> 0, ''delta_RM2_RM3_radm2'' \<mapsto> 0,
        ''sum_p1_p2_p3'' \<mapsto> 3 / 10)"
    by (auto simp: v)
  from b3 r6 have q6: "fst (m6_converter_ref ?s 1) ! 2 =
      m111_stale(''delta_RM1_RM2_radm2'' \<mapsto> 0, ''sum_p1_p2'' \<mapsto> 3 / 10)"
    by (auto simp: v)
  show ?thesis
    using h k v(7) o r111 r6 q111 q6 by simp
qed

end
